theory Spec2Isabelle
  imports Complex_Main "HOL-Library.AList"
begin

section \<open>Conventions of the embedding\<close>

text \<open>
  The Python sources are embedded function by function.  Python \<open>float\<close> values are
  modelled by exact reals, Python \<open>int\<close> by \<open>int\<close>, a \<open>datetime\<close> by its number of
  microseconds (an \<open>int\<close>), and a \<open>timedelta\<close> by a number of microseconds.  The
  clock is a parameter \<open>now\<close>: the calls of \<open>datetime.now()\<close> inside one operation read
  the same value.  Rounding and overflow of floating-point operations are not modelled.
  A \<open>dict\<close> or
  \<open>defaultdict\<close> is an association list in insertion order: reading a missing key of a
  \<open>defaultdict\<close> yields the factory's value, and storing a key keeps its position or
  appends it, as \<open>AList.update\<close> does.  Log lines, printed text and formatted
  descriptions are left out unless a property speaks about them.
\<close>

section \<open>models/state.py: enumerations and the transaction record\<close>

datatype PaymentStatus = SUCCESS | FAILED | PENDING | RETRY

datatype PaymentMethod = CREDIT_CARD | DEBIT_CARD | UPI | NET_BANKING | WALLET

fun method_value :: "PaymentMethod \<Rightarrow> string" where
  "method_value CREDIT_CARD = ''credit_card''"
| "method_value DEBIT_CARD = ''debit_card''"
| "method_value UPI = ''upi''"
| "method_value NET_BANKING = ''net_banking''"
| "method_value WALLET = ''wallet''"

type_synonym datetime = int

record PaymentTransaction =
  transaction_id :: string
  timestamp :: datetime
  amount :: real
  currency :: string
  payment_method :: PaymentMethod
  issuer :: string
  merchant_id :: string
  txn_status :: PaymentStatus
  error_code :: "string option"
  error_message :: "string option"
  latency_ms :: real
  retry_count :: int
  is_retry :: bool
  original_transaction_id :: "string option"
  region :: string
  processor :: string

text \<open>Truthiness of an optional string: \<open>None\<close> and the empty string are falsy.\<close>

fun truthy :: "string option \<Rightarrow> bool" where
  "truthy None = False"
| "truthy (Some s) = (s \<noteq> [])"

section \<open>agent/observer.py: the observer's state\<close>

record counter =
  success :: int
  failed :: int
  total :: int

definition zero_counter :: counter where
  "zero_counter = \<lparr>success = 0, failed = 0, total = 0\<rparr>"

record retry_counter =
  attempted :: int
  succeeded :: int

definition zero_retry :: retry_counter where
  "zero_retry = \<lparr>attempted = 0, succeeded = 0\<rparr>"

datatype dimension = Overall | By_issuer | By_method | By_region | By_merchant

text \<open>\<open>dd_get d dflt k\<close> is \<open>d[k]\<close> on a \<open>defaultdict\<close> whose factory returns \<open>dflt\<close>.\<close>

definition dd_get :: "('k \<times> 'v) list \<Rightarrow> 'v \<Rightarrow> 'k \<Rightarrow> 'v" where
  "dd_get d dflt k = (case map_of d k of Some v \<Rightarrow> v | None \<Rightarrow> dflt)"

text \<open>\<open>dd_modify f dflt k d\<close> is \<open>d[k] = f(d[k])\<close> on such a dictionary.\<close>

definition dd_modify :: "('v \<Rightarrow> 'v) \<Rightarrow> 'v \<Rightarrow> 'k \<Rightarrow> ('k \<times> 'v) list \<Rightarrow> ('k \<times> 'v) list" where
  "dd_modify f dflt k d = AList.update k (f (dd_get d dflt k)) d"

type_synonym stats_t = "dimension \<Rightarrow> (string \<times> counter) list"

record PaymentObserver =
  window_size :: int
  memory_recent :: "PaymentTransaction list"
  transactions_window :: "PaymentTransaction list"
  stats :: stats_t
  lat_overall :: "real list"
  lat_by_issuer :: "(string \<times> real list) list"
  lat_by_method :: "(string \<times> real list) list"
  error_codes :: "(string \<times> int) list"
  error_messages :: "(string \<times> int) list"
  retry_stats :: "(string \<times> retry_counter) list"

text \<open>\<open>timedelta(minutes=m)\<close> in microseconds.\<close>

definition minutes :: "int \<Rightarrow> int" where
  "minutes m = m * 60000000"

definition observer_init :: "int \<Rightarrow> PaymentObserver" where
  "observer_init window_size_minutes =
     \<lparr>window_size = minutes window_size_minutes,
      memory_recent = [],
      transactions_window = [],
      stats = (\<lambda>d. []),
      lat_overall = [],
      lat_by_issuer = [],
      lat_by_method = [],
      error_codes = [],
      error_messages = [],
      retry_stats = []\<rparr>"

text \<open>\<open>AgentMemory.add_transaction\<close> with \<open>max_recent = 10000\<close>.\<close>

definition add_transaction :: "PaymentTransaction \<Rightarrow> PaymentTransaction list \<Rightarrow> PaymentTransaction list" where
  "add_transaction t rs =
     (let rs' = rs @ [t]
      in if length rs' > 10000 then drop (length rs' - 10000) rs' else rs')"

text \<open>The key a transaction is counted under in each dimension.\<close>

fun dim_key :: "dimension \<Rightarrow> PaymentTransaction \<Rightarrow> string" where
  "dim_key Overall t = ''current''"
| "dim_key By_issuer t = issuer t"
| "dim_key By_method t = method_value (payment_method t)"
| "dim_key By_region t = region t"
| "dim_key By_merchant t = merchant_id t"

text \<open>
  \<open>c[status_key] += n; c['total'] += n\<close>, where \<open>status_key\<close> is \<open>'success'\<close> for a
  successful transaction and \<open>'failed'\<close> for every other status.
\<close>

definition bump :: "int \<Rightarrow> PaymentTransaction \<Rightarrow> counter \<Rightarrow> counter" where
  "bump n t c =
     (let c1 = (if txn_status t = SUCCESS then c\<lparr>success := success c + n\<rparr>
                else c\<lparr>failed := failed c + n\<rparr>)
      in c1\<lparr>total := total c1 + n\<rparr>)"

definition bump_dim :: "int \<Rightarrow> PaymentTransaction \<Rightarrow> dimension \<Rightarrow> stats_t \<Rightarrow> stats_t" where
  "bump_dim n t d st = st(d := dd_modify (bump n t) zero_counter (dim_key d t) (st d))"

definition update_stats :: "PaymentTransaction \<Rightarrow> stats_t \<Rightarrow> stats_t" where
  "update_stats t st =
     bump_dim 1 t By_merchant
       (bump_dim 1 t By_region
         (bump_dim 1 t By_method
           (bump_dim 1 t By_issuer
             (bump_dim 1 t Overall st))))"

definition remove_from_stats :: "PaymentTransaction \<Rightarrow> stats_t \<Rightarrow> stats_t" where
  "remove_from_stats t st =
     bump_dim (- 1) t By_merchant
       (bump_dim (- 1) t By_region
         (bump_dim (- 1) t By_method
           (bump_dim (- 1) t By_issuer
             (bump_dim (- 1) t Overall st))))"

text \<open>
  The loop of \<open>_cleanup_old_transactions\<close>: pop the head of the window while it is older
  than the cutoff, and take it out of the statistics.
\<close>

fun cleanup_loop :: "datetime \<Rightarrow> PaymentTransaction list \<Rightarrow> stats_t \<Rightarrow> PaymentTransaction list \<times> stats_t" where
  "cleanup_loop cutoff [] st = ([], st)"
| "cleanup_loop cutoff (t # ts) st =
     (if timestamp t < cutoff then cleanup_loop cutoff ts (remove_from_stats t st)
      else (t # ts, st))"

definition cleanup_old_transactions :: "datetime \<Rightarrow> PaymentObserver \<Rightarrow> PaymentObserver" where
  "cleanup_old_transactions now obs =
     (let cutoff_time = now - window_size obs;
          (w, st) = cleanup_loop cutoff_time (transactions_window obs) (stats obs)
      in obs\<lparr>transactions_window := w, stats := st\<rparr>)"

text \<open>A \<open>deque(maxlen=n)\<close>: appending to a full ring drops its oldest sample.\<close>

definition ring_append :: "nat \<Rightarrow> 'a \<Rightarrow> 'a list \<Rightarrow> 'a list" where
  "ring_append n x xs = (let ys = xs @ [x] in drop (length ys - n) ys)"

definition track_latency :: "PaymentTransaction \<Rightarrow> PaymentObserver \<Rightarrow> PaymentObserver" where
  "track_latency t obs =
     (if latency_ms t > 0 then
        obs\<lparr>lat_overall := ring_append 1000 (latency_ms t) (lat_overall obs),
            lat_by_issuer := dd_modify (ring_append 100 (latency_ms t)) [] (issuer t) (lat_by_issuer obs),
            lat_by_method := dd_modify (ring_append 100 (latency_ms t)) []
                               (method_value (payment_method t)) (lat_by_method obs)\<rparr>
      else obs)"

definition track_errors :: "PaymentTransaction \<Rightarrow> PaymentObserver \<Rightarrow> PaymentObserver" where
  "track_errors t obs =
     (if txn_status t = FAILED then
        (let o1 = (if truthy (error_code t)
                   then obs\<lparr>error_codes := dd_modify (\<lambda>c. c + 1) 0 (the (error_code t)) (error_codes obs)\<rparr>
                   else obs)
         in if truthy (error_message t)
            then o1\<lparr>error_messages := dd_modify (\<lambda>c. c + 1) 0 (the (error_message t)) (error_messages o1)\<rparr>
            else o1)
      else obs)"

definition track_retries :: "PaymentTransaction \<Rightarrow> PaymentObserver \<Rightarrow> PaymentObserver" where
  "track_retries t obs =
     (if is_retry t then
        (let original_id = (if truthy (original_transaction_id t)
                            then the (original_transaction_id t) else transaction_id t);
             rs1 = dd_modify (\<lambda>r. r\<lparr>attempted := attempted r + 1\<rparr>) zero_retry original_id (retry_stats obs);
             rs2 = (if txn_status t = SUCCESS
                    then dd_modify (\<lambda>r. r\<lparr>succeeded := succeeded r + 1\<rparr>) zero_retry original_id rs1
                    else rs1)
         in obs\<lparr>retry_stats := rs2\<rparr>)
      else obs)"

definition ingest_transaction :: "datetime \<Rightarrow> PaymentTransaction \<Rightarrow> PaymentObserver \<Rightarrow> PaymentObserver" where
  "ingest_transaction now t obs =
     (let o1 = obs\<lparr>memory_recent := add_transaction t (memory_recent obs)\<rparr>;
          o2 = o1\<lparr>transactions_window := transactions_window o1 @ [t]\<rparr>;
          o3 = cleanup_old_transactions now o2;
          o4 = o3\<lparr>stats := update_stats t (stats o3)\<rparr>;
          o5 = track_latency t o4;
          o6 = track_errors t o5
      in track_retries t o6)"

text \<open>
  \<open>ingest_batch\<close>: the transactions are ingested in order; each one reads the clock on its
  own, so a batch comes with one clock value per transaction.
\<close>

fun ingest_batch :: "(datetime \<times> PaymentTransaction) list \<Rightarrow> PaymentObserver \<Rightarrow> PaymentObserver" where
  "ingest_batch [] obs = obs"
| "ingest_batch ((now, t) # rest) obs = ingest_batch rest (ingest_transaction now t obs)"

subsection \<open>Queries of the observer\<close>

definition get_success_rate :: "dimension \<Rightarrow> string \<Rightarrow> PaymentObserver \<Rightarrow> real" where
  "get_success_rate d k obs =
     (let c = dd_get (stats obs d) zero_counter k
      in if total c = 0 then 1 else real_of_int (success c) / real_of_int (total c))"

definition get_failure_rate :: "dimension \<Rightarrow> string \<Rightarrow> PaymentObserver \<Rightarrow> real" where
  "get_failure_rate d k obs = 1 - get_success_rate d k obs"

definition get_transaction_volume :: "dimension \<Rightarrow> string \<Rightarrow> PaymentObserver \<Rightarrow> int" where
  "get_transaction_volume d k obs = total (dd_get (stats obs d) zero_counter k)"

text \<open>
  \<open>numpy.percentile\<close>, \<open>numpy.mean\<close> and \<open>numpy.max\<close> are library functions, written
  here after their documentation; the percentile is NumPy's default, linear
  interpolation between the two nearest ranks of the sorted samples.  They are only
  called on a non-empty list.
\<close>

definition np_percentile :: "real list \<Rightarrow> real \<Rightarrow> real" where
  "np_percentile xs q =
     (let s = sort xs;
          h = (real (length xs) - 1) * q / 100;
          lo = nat \<lfloor>h\<rfloor>;
          hi = min (lo + 1) (length xs - 1)
      in s ! lo + (h - real lo) * (s ! hi - s ! lo))"

definition np_mean :: "real list \<Rightarrow> real" where
  "np_mean xs = sum_list xs / real (length xs)"

definition np_max :: "real list \<Rightarrow> real" where
  "np_max xs = fold max (tl xs) (hd xs)"

record latency_stats =
  lat_p50 :: real
  lat_p95 :: real
  lat_p99 :: real
  lat_mean :: real
  lat_max :: real

datatype latency_dimension = Lat_overall | Lat_by_issuer | Lat_by_method

definition latencies_of :: "latency_dimension \<Rightarrow> string \<Rightarrow> PaymentObserver \<Rightarrow> real list" where
  "latencies_of d k obs =
     (case d of
        Lat_overall \<Rightarrow> lat_overall obs
      | Lat_by_issuer \<Rightarrow> dd_get (lat_by_issuer obs) [] k
      | Lat_by_method \<Rightarrow> dd_get (lat_by_method obs) [] k)"

definition get_latency_stats :: "latency_dimension \<Rightarrow> string \<Rightarrow> PaymentObserver \<Rightarrow> latency_stats" where
  "get_latency_stats d k obs =
     (let latencies = latencies_of d k obs
      in if latencies = [] then \<lparr>lat_p50 = 0, lat_p95 = 0, lat_p99 = 0, lat_mean = 0, lat_max = 0\<rparr>
         else \<lparr>lat_p50 = np_percentile latencies 50,
               lat_p95 = np_percentile latencies 95,
               lat_p99 = np_percentile latencies 99,
               lat_mean = np_mean latencies,
               lat_max = np_max latencies\<rparr>)"

definition get_retry_efficiency :: "PaymentObserver \<Rightarrow> real" where
  "get_retry_efficiency obs =
     (if retry_stats obs = [] then 1
      else (let total_retries = sum_list (map (\<lambda>(k, s). attempted s) (retry_stats obs));
                successful_retries = sum_list (map (\<lambda>(k, s). succeeded s) (retry_stats obs))
            in if total_retries = 0 then 1
               else real_of_int successful_retries / real_of_int total_retries))"

text \<open>\<open>sorted(items, key=count, reverse=True)[:n]\<close>: a stable sort, largest count first.\<close>

definition get_top_errors :: "nat \<Rightarrow> PaymentObserver \<Rightarrow> (string \<times> int) list" where
  "get_top_errors n obs = take n (sort_key (\<lambda>(k, c). - c) (error_codes obs))"

record health =
  success_rate :: real
  failure_rate :: real
  volume :: int
  avg_latency :: real
  p95_latency :: real

definition health_of :: "latency_dimension \<Rightarrow> PaymentObserver \<Rightarrow> string \<times> counter \<Rightarrow> string \<times> health" where
  "health_of d obs kc =
     (let sr = real_of_int (success (snd kc)) / real_of_int (total (snd kc));
          latency = get_latency_stats d (fst kc) obs
      in (fst kc, \<lparr>success_rate = sr, failure_rate = 1 - sr, volume = total (snd kc),
                   avg_latency = lat_mean latency, p95_latency = lat_p95 latency\<rparr>))"

definition get_issuer_health :: "PaymentObserver \<Rightarrow> (string \<times> health) list" where
  "get_issuer_health obs =
     map (health_of Lat_by_issuer obs) (filter (\<lambda>kc. total (snd kc) \<noteq> 0) (stats obs By_issuer))"

definition get_method_performance :: "PaymentObserver \<Rightarrow> (string \<times> health) list" where
  "get_method_performance obs =
     map (health_of Lat_by_method obs) (filter (\<lambda>kc. total (snd kc) \<noteq> 0) (stats obs By_method))"

text \<open>The operations on an observer: ingesting a transaction, and evicting at a clock value.\<close>

datatype observer_op = Ingest datetime PaymentTransaction | Evict datetime

fun observer_step :: "observer_op \<Rightarrow> PaymentObserver \<Rightarrow> PaymentObserver" where
  "observer_step (Ingest now t) obs = ingest_transaction now t obs"
| "observer_step (Evict now) obs = cleanup_old_transactions now obs"

definition observer_run :: "observer_op list \<Rightarrow> PaymentObserver \<Rightarrow> PaymentObserver" where
  "observer_run ops obs = fold observer_step ops obs"

section \<open>agent/reasoner.py: pattern detection\<close>

datatype error = ValueError | ZeroDivisionError | AttributeError

record baselines =
  base_overall_success_rate :: real
  base_issuer_success_rates :: "(string \<times> real) list"
  base_method_success_rates :: "(string \<times> real) list"
  base_avg_latency :: real
  base_retry_efficiency :: real

record thresholds =
  thr_issuer_degradation :: real
  thr_method_fatigue :: real
  thr_latency_spike :: real
  thr_retry_storm :: real
  thr_error_cluster :: int

record PaymentReasoner =
  baselines :: baselines
  thresholds :: thresholds

definition reasoner_init :: PaymentReasoner where
  "reasoner_init =
     \<lparr>baselines = \<lparr>base_overall_success_rate = 95 / 100,
                   base_issuer_success_rates = [],
                   base_method_success_rates = [],
                   base_avg_latency = 200,
                   base_retry_efficiency = 60 / 100\<rparr>,
      thresholds = \<lparr>thr_issuer_degradation = 15 / 100,
                    thr_method_fatigue = 20 / 100,
                    thr_latency_spike = 15 / 10,
                    thr_retry_storm = 40 / 100,
                    thr_error_cluster = 10\<rparr>\<rparr>"

text \<open>
  A pattern, without its random identifier, its detection time and its formatted texts
  (description and evidence).
\<close>

record Pattern =
  pattern_type :: string
  severity :: real
  confidence :: real
  affected_dimension :: string
  affected_value :: string
  metrics :: "(string \<times> real) list"

text \<open>
  \<open>_calculate_confidence\<close>.  \<open>math.sqrt\<close> raises \<open>ValueError\<close> on a negative argument.
\<close>

definition calculate_confidence :: "real \<Rightarrow> real \<Rightarrow> error + real" where
  "calculate_confidence sample_size effect_size =
     (let size_confidence = 1 / (1 + exp (- (5 / 100) * (sample_size - 50)));
          effect_confidence = min (effect_size / (3 / 10)) 1
      in if size_confidence * effect_confidence < 0 then Inl ValueError
         else Inr (min (max (sqrt (size_confidence * effect_confidence)) 0) 1))"

text \<open>Sequencing of computations that may raise.\<close>

definition bind_err :: "error + 'a \<Rightarrow> ('a \<Rightarrow> error + 'b) \<Rightarrow> error + 'b" where
  "bind_err r f = (case r of Inl e \<Rightarrow> Inl e | Inr x \<Rightarrow> f x)"

text \<open>
  A detector loop: the body yields no pattern, one pattern, or raises; the first raise
  ends the loop.
\<close>

fun collect :: "('a \<Rightarrow> error + Pattern list) \<Rightarrow> 'a list \<Rightarrow> error + Pattern list" where
  "collect body [] = Inr []"
| "collect body (x # xs) =
     bind_err (body x) (\<lambda>ps. bind_err (collect body xs) (\<lambda>qs. Inr (ps @ qs)))"

definition issuer_degradation_body :: "PaymentReasoner \<Rightarrow> string \<times> health \<Rightarrow> error + Pattern list" where
  "issuer_degradation_body r ih =
     (let baseline = dd_get (base_issuer_success_rates (baselines r)) (95 / 100) (fst ih);
          degradation = baseline - success_rate (snd ih)
      in if volume (snd ih) \<ge> 10 \<and> degradation \<ge> thr_issuer_degradation (thresholds r) then
           bind_err (calculate_confidence (real_of_int (volume (snd ih))) degradation) (\<lambda>conf.
             Inr [\<lparr>pattern_type = ''issuer_degradation'',
                   severity = min (degradation / (3 / 10)) 1,
                   confidence = conf,
                   affected_dimension = ''issuer'',
                   affected_value = fst ih,
                   metrics = [(''current_success_rate'', success_rate (snd ih)),
                              (''baseline_success_rate'', baseline),
                              (''degradation'', degradation),
                              (''volume'', real_of_int (volume (snd ih))),
                              (''avg_latency'', avg_latency (snd ih))]\<rparr>])
         else Inr [])"

definition detect_issuer_degradation :: "PaymentReasoner \<Rightarrow> PaymentObserver \<Rightarrow> error + Pattern list" where
  "detect_issuer_degradation r obs = collect (issuer_degradation_body r) (get_issuer_health obs)"

definition detect_retry_storms :: "PaymentReasoner \<Rightarrow> PaymentObserver \<Rightarrow> error + Pattern list" where
  "detect_retry_storms r obs =
     (let total_txns = get_transaction_volume Overall ''current'' obs;
          retry_count = int (length (filter is_retry (transactions_window obs)))
      in if total_txns = 0 then Inr []
         else (let retry_percentage = real_of_int retry_count / real_of_int total_txns;
                   retry_efficiency = get_retry_efficiency obs
               in if retry_percentage \<ge> thr_retry_storm (thresholds r) then
                    bind_err (calculate_confidence (real_of_int total_txns) (retry_percentage - 2 / 10)) (\<lambda>conf.
                      Inr [\<lparr>pattern_type = ''retry_storm'',
                            severity = min (retry_percentage / (6 / 10)) 1,
                            confidence = conf,
                            affected_dimension = ''overall'',
                            affected_value = ''retry_behavior'',
                            metrics = [(''retry_percentage'', retry_percentage),
                                       (''retry_efficiency'', retry_efficiency),
                                       (''total_retries'', real_of_int retry_count),
                                       (''total_transactions'', real_of_int total_txns)]\<rparr>])
                  else Inr []))"

definition method_fatigue_body :: "PaymentReasoner \<Rightarrow> string \<times> health \<Rightarrow> error + Pattern list" where
  "method_fatigue_body r mp =
     (let baseline = dd_get (base_method_success_rates (baselines r)) (95 / 100) (fst mp);
          degradation = baseline - success_rate (snd mp)
      in if volume (snd mp) \<ge> 20 \<and> degradation \<ge> thr_method_fatigue (thresholds r) then
           bind_err (calculate_confidence (real_of_int (volume (snd mp))) degradation) (\<lambda>conf.
             Inr [\<lparr>pattern_type = ''method_fatigue'',
                   severity = min (degradation / (4 / 10)) 1,
                   confidence = conf,
                   affected_dimension = ''payment_method'',
                   affected_value = fst mp,
                   metrics = [(''current_success_rate'', success_rate (snd mp)),
                              (''baseline_success_rate'', baseline),
                              (''degradation'', degradation),
                              (''volume'', real_of_int (volume (snd mp)))]\<rparr>])
         else Inr [])"

definition detect_method_fatigue :: "PaymentReasoner \<Rightarrow> PaymentObserver \<Rightarrow> error + Pattern list" where
  "detect_method_fatigue r obs = collect (method_fatigue_body r) (get_method_performance obs)"

definition detect_latency_spikes :: "PaymentReasoner \<Rightarrow> PaymentObserver \<Rightarrow> error + Pattern list" where
  "detect_latency_spikes r obs =
     (let ls = get_latency_stats Lat_overall [] obs;
          baseline = base_avg_latency (baselines r);
          current_p95 = lat_p95 ls
      in if current_p95 > baseline * thr_latency_spike (thresholds r) then
           (if baseline = 0 then Inl ZeroDivisionError
            else (let spike_factor = current_p95 / baseline
                  in Inr [\<lparr>pattern_type = ''latency_spike'',
                           severity = min ((spike_factor - 1) / 2) 1,
                           confidence = 8 / 10,
                           affected_dimension = ''overall'',
                           affected_value = ''latency'',
                           metrics = [(''p50'', lat_p50 ls), (''p95'', lat_p95 ls),
                                      (''p99'', lat_p99 ls), (''mean'', lat_mean ls),
                                      (''baseline'', baseline),
                                      (''spike_factor'', spike_factor)]\<rparr>]))
         else Inr [])"

definition error_cluster_body :: "PaymentReasoner \<Rightarrow> PaymentObserver \<Rightarrow> string \<times> int \<Rightarrow> error + Pattern list" where
  "error_cluster_body r obs ec =
     (if snd ec \<ge> thr_error_cluster (thresholds r) then
        (let tot = get_transaction_volume Overall ''current'' obs;
             error_rate = real_of_int (snd ec) / real_of_int (max tot 1)
         in bind_err (calculate_confidence (real_of_int (snd ec)) error_rate) (\<lambda>conf.
              Inr [\<lparr>pattern_type = ''error_cluster'',
                    severity = min (error_rate / (1 / 10)) 1,
                    confidence = conf,
                    affected_dimension = ''error_code'',
                    affected_value = fst ec,
                    metrics = [(''error_count'', real_of_int (snd ec)),
                               (''total_transactions'', real_of_int tot),
                               (''error_rate'', error_rate)]\<rparr>]))
      else Inr [])"

definition detect_error_clusters :: "PaymentReasoner \<Rightarrow> PaymentObserver \<Rightarrow> error + Pattern list" where
  "detect_error_clusters r obs = collect (error_cluster_body r obs) (get_top_errors 5 obs)"

definition geographic_body :: "PaymentObserver \<Rightarrow> string \<times> counter \<Rightarrow> error + Pattern list" where
  "geographic_body obs rc =
     (if total (snd rc) < 10 then Inr []
      else (let sr = (if total (snd rc) > 0
                      then real_of_int (success (snd rc)) / real_of_int (total (snd rc)) else 1);
                overall_rate = get_success_rate Overall ''current'' obs;
                degradation = overall_rate - sr
            in if degradation \<ge> 20 / 100 then
                 bind_err (calculate_confidence (real_of_int (total (snd rc))) degradation) (\<lambda>conf.
                   Inr [\<lparr>pattern_type = ''geographic_issue'',
                         severity = min (degradation / (4 / 10)) 1,
                         confidence = conf,
                         affected_dimension = ''region'',
                         affected_value = fst rc,
                         metrics = [(''region_success_rate'', sr),
                                    (''overall_success_rate'', overall_rate),
                                    (''degradation'', degradation),
                                    (''volume'', real_of_int (total (snd rc)))]\<rparr>])
               else Inr []))"

definition detect_geographic_issues :: "PaymentObserver \<Rightarrow> error + Pattern list" where
  "detect_geographic_issues obs = collect (geographic_body obs) (stats obs By_region)"

text \<open>
  \<open>analyze\<close>: the six detectors in order, then a stable sort, highest severity first.
  A detector that raises ends the analysis.
\<close>

definition analyze :: "PaymentReasoner \<Rightarrow> PaymentObserver \<Rightarrow> error + Pattern list" where
  "analyze r obs =
     bind_err (detect_issuer_degradation r obs) (\<lambda>p1.
     bind_err (detect_retry_storms r obs) (\<lambda>p2.
     bind_err (detect_method_fatigue r obs) (\<lambda>p3.
     bind_err (detect_latency_spikes r obs) (\<lambda>p4.
     bind_err (detect_error_clusters r obs) (\<lambda>p5.
     bind_err (detect_geographic_issues obs) (\<lambda>p6.
       Inr (sort_key (\<lambda>p. - severity p) (p1 @ p2 @ p3 @ p4 @ p5 @ p6))))))))"

section \<open>models/state.py: actions and the agent state\<close>

datatype ActionType = ADJUST_RETRY | CIRCUIT_BREAKER | ROUTE_CHANGE | METHOD_SUPPRESS | ALERT_OPS | NO_ACTION

datatype RiskLevel = LOW | MEDIUM | HIGH | CRITICAL

datatype AuthorizationLevel = AUTOMATIC | SEMI_AUTOMATIC | MANUAL

text \<open>
  The parameters of an action: the keys the executor reads, each absent (\<open>None\<close>) or
  present with a value of the type the decision maker gives it.
\<close>

record parameters_t =
  p_issuer :: "string option"
  p_duration_minutes :: "int option"
  p_max_retries :: "int option"
  p_backoff_multiplier :: "real option"
  p_timeout_ms :: "int option"
  p_alternative_routing :: "bool option"
  p_reduce_routing_pct :: "int option"
  p_payment_method :: "string option"

definition no_parameters :: parameters_t where
  "no_parameters =
     \<lparr>p_issuer = None, p_duration_minutes = None, p_max_retries = None,
      p_backoff_multiplier = None, p_timeout_ms = None, p_alternative_routing = None,
      p_reduce_routing_pct = None, p_payment_method = None\<rparr>"

record impact =
  success_rate_delta :: "real option"
  latency_delta_ms :: "real option"
  cost_delta_per_txn :: "real option"
  affected_traffic_pct :: "real option"

text \<open>\<open>d.get(key, default)\<close> on an optional entry.\<close>

definition get_or :: "'a option \<Rightarrow> 'a \<Rightarrow> 'a" where
  "get_or v dflt = (case v of Some x \<Rightarrow> x | None \<Rightarrow> dflt)"

record Action =
  action_id :: string
  action_type :: ActionType
  target :: string
  parameters :: parameters_t
  risk_level :: RiskLevel
  authorization_level :: AuthorizationLevel
  estimated_impact :: impact
  act_confidence :: real
  executed_at :: "datetime option"
  completed_at :: "datetime option"
  status :: string
  approver :: "string option"

record strategy =
  max_retries :: "int option"
  backoff_multiplier :: "real option"
  timeout_ms :: "int option"

record routing =
  alternative_routing :: bool
  reduce_routing_pct :: int
  applied_at :: datetime

record AgentState =
  active_circuit_breakers :: "string set"
  suppressed_methods :: "string set"
  retry_strategies :: "string \<rightharpoonup> strategy"
  routing_overrides :: "string \<rightharpoonup> routing"
  actions_taken_last_hour :: int
  rollbacks_last_hour :: int
  human_overrides_last_hour :: int
  actions_executed :: int
  actions_successful :: int

definition agent_state_init :: AgentState where
  "agent_state_init =
     \<lparr>active_circuit_breakers = {}, suppressed_methods = {},
      retry_strategies = Map.empty, routing_overrides = Map.empty,
      actions_taken_last_hour = 0, rollbacks_last_hour = 0, human_overrides_last_hour = 0,
      actions_executed = 0, actions_successful = 0\<rparr>"

definition can_take_action :: "AgentState \<Rightarrow> Action \<Rightarrow> bool \<times> string" where
  "can_take_action st a =
     (if actions_taken_last_hour st \<ge> 50 then (False, ''Hourly action limit reached'')
      else if rollbacks_last_hour st \<ge> 10 then (False, ''Too many rollbacks in last hour'')
      else if risk_level a \<in> {HIGH, CRITICAL} \<and> rollbacks_last_hour st \<ge> 3
        then (False, ''High-risk action blocked due to recent rollbacks'')
      else (True, ''Action allowed''))"

section \<open>agent/executor.py\<close>

record snapshot =
  snap_success_rate :: real
  snap_avg_latency :: real
  snap_transaction_volume :: int
  snap_timestamp :: datetime

record log_entry =
  le_action_id :: string
  le_action_type :: ActionType
  le_target :: string
  le_executed_at :: datetime
  le_success :: bool
  le_message :: string
  le_baseline_metrics :: snapshot
  le_estimated_impact :: impact
  le_parameters :: parameters_t

record rollback_thresholds_t =
  success_rate_drop :: real
  latency_increase :: real
  error_rate_increase :: real
  cost_increase :: real

record PaymentExecutor =
  rollback_thresholds :: rollback_thresholds_t
  execution_log :: "log_entry list"
  active_interventions :: "(string \<times> Action) list"

definition executor_init :: PaymentExecutor where
  "executor_init =
     \<lparr>rollback_thresholds = \<lparr>success_rate_drop = 5 / 100, latency_increase = 50 / 100,
                             error_rate_increase = 10 / 100, cost_increase = 20 / 100\<rparr>,
      execution_log = [],
      active_interventions = []\<rparr>"

text \<open>
  \<open>_pre_execution_checks\<close>.  Its final loop returns at the first active intervention
  with the same type and target.
\<close>

definition pre_execution_checks :: "PaymentExecutor \<Rightarrow> Action \<Rightarrow> AgentState \<Rightarrow> bool \<times> string" where
  "pre_execution_checks ex a st =
     (if authorization_level a = MANUAL \<and> \<not> truthy (approver a)
        then (False, ''Manual authorization required'')
      else if authorization_level a = SEMI_AUTOMATIC \<and> \<not> truthy (approver a) \<and> risk_level a \<noteq> LOW
        then (False, ''Semi-automatic action requires approval for non-low risk'')
      else if \<not> fst (can_take_action st a) then (False, snd (can_take_action st a))
      else (case find (\<lambda>ka. action_type (snd ka) = action_type a \<and> target (snd ka) = target a)
                      (active_interventions ex) of
              Some ka \<Rightarrow> (False, ''Similar action already active: '' @ action_id (snd ka))
            | None \<Rightarrow> (True, ''Checks passed'')))"

definition execute_circuit_breaker :: "Action \<Rightarrow> AgentState \<Rightarrow> (bool \<times> string) \<times> AgentState" where
  "execute_circuit_breaker a st =
     (if \<not> truthy (p_issuer (parameters a)) then ((False, ''No issuer specified''), st)
      else (let issuer = the (p_issuer (parameters a))
            in ((True, ''Circuit breaker activated for '' @ issuer),
                st\<lparr>active_circuit_breakers := insert issuer (active_circuit_breakers st)\<rparr>)))"

definition execute_retry_adjustment :: "Action \<Rightarrow> AgentState \<Rightarrow> (bool \<times> string) \<times> AgentState" where
  "execute_retry_adjustment a st =
     (let s0 = get_or (retry_strategies st (target a))
                 \<lparr>max_retries = None, backoff_multiplier = None, timeout_ms = None\<rparr>;
          s1 = (case p_max_retries (parameters a) of
                  Some v \<Rightarrow> s0\<lparr>max_retries := Some v\<rparr> | None \<Rightarrow> s0);
          s2 = (case p_backoff_multiplier (parameters a) of
                  Some v \<Rightarrow> s1\<lparr>backoff_multiplier := Some v\<rparr> | None \<Rightarrow> s1);
          s3 = (case p_timeout_ms (parameters a) of
                  Some v \<Rightarrow> s2\<lparr>timeout_ms := Some v\<rparr> | None \<Rightarrow> s2)
      in ((True, ''Retry strategy adjusted for '' @ target a),
          st\<lparr>retry_strategies := (retry_strategies st)(target a \<mapsto> s3)\<rparr>))"

definition execute_route_change :: "datetime \<Rightarrow> Action \<Rightarrow> AgentState \<Rightarrow> (bool \<times> string) \<times> AgentState" where
  "execute_route_change now a st =
     ((True, ''Routing adjusted for '' @ target a),
      st\<lparr>routing_overrides := (routing_overrides st)(target a \<mapsto>
            \<lparr>alternative_routing = get_or (p_alternative_routing (parameters a)) False,
             reduce_routing_pct = get_or (p_reduce_routing_pct (parameters a)) 0,
             applied_at = now\<rparr>)\<rparr>)"

definition execute_method_suppress :: "Action \<Rightarrow> AgentState \<Rightarrow> (bool \<times> string) \<times> AgentState" where
  "execute_method_suppress a st =
     (if \<not> truthy (p_payment_method (parameters a)) then ((False, ''No payment method specified''), st)
      else (let method = the (p_payment_method (parameters a))
            in ((True, ''Payment method '' @ method @ '' temporarily suppressed''),
                st\<lparr>suppressed_methods := insert method (suppressed_methods st)\<rparr>)))"

text \<open>\<open>_execute_alert\<close> only writes the alert to the log and the console.\<close>

definition execute_alert :: "Action \<Rightarrow> AgentState \<Rightarrow> (bool \<times> string) \<times> AgentState" where
  "execute_alert a st = ((True, ''Alert sent to ops team''), st)"

definition execute_by_type :: "datetime \<Rightarrow> Action \<Rightarrow> AgentState \<Rightarrow> (bool \<times> string) \<times> AgentState" where
  "execute_by_type now a st =
     (case action_type a of
        CIRCUIT_BREAKER \<Rightarrow> execute_circuit_breaker a st
      | ADJUST_RETRY \<Rightarrow> execute_retry_adjustment a st
      | ROUTE_CHANGE \<Rightarrow> execute_route_change now a st
      | METHOD_SUPPRESS \<Rightarrow> execute_method_suppress a st
      | ALERT_OPS \<Rightarrow> execute_alert a st
      | NO_ACTION \<Rightarrow> ((True, ''No action taken (monitoring only)''), st))"

definition capture_baseline_metrics :: "datetime \<Rightarrow> PaymentObserver \<Rightarrow> snapshot" where
  "capture_baseline_metrics now obs =
     \<lparr>snap_success_rate = get_success_rate Overall ''current'' obs,
      snap_avg_latency = lat_mean (get_latency_stats Lat_overall [] obs),
      snap_transaction_volume = get_transaction_volume Overall ''current'' obs,
      snap_timestamp = now\<rparr>"

definition log_execution :: "datetime \<Rightarrow> Action \<Rightarrow> snapshot \<Rightarrow> bool \<Rightarrow> string \<Rightarrow> PaymentExecutor \<Rightarrow> PaymentExecutor" where
  "log_execution now a baseline_metrics ok message ex =
     ex\<lparr>execution_log := execution_log ex @
          [\<lparr>le_action_id = action_id a, le_action_type = action_type a, le_target = target a,
            le_executed_at = now, le_success = ok, le_message = message,
            le_baseline_metrics = baseline_metrics,
            le_estimated_impact = estimated_impact a, le_parameters = parameters a\<rparr>]\<rparr>"

text \<open>
  \<open>execute\<close> returns its pair and mutates the action, the agent state and the executor;
  the model returns all four.
\<close>

definition execute :: "datetime \<Rightarrow> Action \<Rightarrow> AgentState \<Rightarrow> PaymentObserver \<Rightarrow> PaymentExecutor
    \<Rightarrow> (bool \<times> string) \<times> Action \<times> AgentState \<times> PaymentExecutor" where
  "execute now a st obs ex =
     (let chk = pre_execution_checks ex a st
      in if \<not> fst chk then ((False, snd chk), a, st, ex)
         else (let baseline_metrics = capture_baseline_metrics now obs;
                   res = execute_by_type now a st;
                   st1 = snd res
               in if fst (fst res) then
                    (let a1 = a\<lparr>status := ''executed'', executed_at := Some now\<rparr>;
                         ex1 = ex\<lparr>active_interventions :=
                                    AList.update (action_id a1) a1 (active_interventions ex)\<rparr>;
                         ex2 = log_execution now a1 baseline_metrics (fst (fst res)) (snd (fst res)) ex1;
                         st2 = st1\<lparr>actions_taken_last_hour := actions_taken_last_hour st1 + 1\<rparr>;
                         st3 = st2\<lparr>actions_executed := actions_executed st2 + 1\<rparr>
                     in (fst res, a1, st3, ex2))
                  else (fst res, a\<lparr>status := ''failed''\<rparr>, st1, ex)))"

text \<open>
  \<open>_should_rollback\<close>.  The percentage in the reason is formatted by Python's
  \<open>{:.1%}\<close>; the formatter is the parameter \<open>pct\<close>.
\<close>

definition should_rollback :: "(real \<Rightarrow> string) \<Rightarrow> PaymentExecutor \<Rightarrow> datetime \<Rightarrow> Action \<Rightarrow> snapshot \<Rightarrow> snapshot
    \<Rightarrow> bool \<times> string" where
  "should_rollback pct ex now a baseline current =
     (let success_drop = snap_success_rate baseline - snap_success_rate current
      in if success_drop > success_rate_drop (rollback_thresholds ex)
           then (True, ''Success rate dropped '' @ pct success_drop)
         else if snap_avg_latency baseline > 0 \<and>
                 (snap_avg_latency current - snap_avg_latency baseline) / snap_avg_latency baseline
                   > latency_increase (rollback_thresholds ex)
           then (True, ''Latency increased '' @
                   pct ((snap_avg_latency current - snap_avg_latency baseline) / snap_avg_latency baseline))
         else (case executed_at a of
                 Some t \<Rightarrow>
                   (if now - t > minutes (get_or (p_duration_minutes (parameters a)) 30)
                    then (True, ''Action duration expired'') else (False, []))
               | None \<Rightarrow> (False, [])))"

text \<open>
  The \<open>if\<close>/\<open>elif\<close> chain of \<open>_rollback_action\<close>, which reverses the state write of
  the action: \<open>discard\<close> on the sets, \<open>del\<close> of a present key on the dictionaries.
\<close>

definition reverse_write :: "Action \<Rightarrow> AgentState \<Rightarrow> AgentState" where
  "reverse_write a st =
     (case action_type a of
        CIRCUIT_BREAKER \<Rightarrow>
          (case p_issuer (parameters a) of
             Some i \<Rightarrow> st\<lparr>active_circuit_breakers := active_circuit_breakers st - {i}\<rparr>
           | None \<Rightarrow> st)
      | ADJUST_RETRY \<Rightarrow> st\<lparr>retry_strategies := (retry_strategies st)(target a := None)\<rparr>
      | ROUTE_CHANGE \<Rightarrow> st\<lparr>routing_overrides := (routing_overrides st)(target a := None)\<rparr>
      | METHOD_SUPPRESS \<Rightarrow>
          (case p_payment_method (parameters a) of
             Some m \<Rightarrow> st\<lparr>suppressed_methods := suppressed_methods st - {m}\<rparr>
           | None \<Rightarrow> st)
      | ALERT_OPS \<Rightarrow> st
      | NO_ACTION \<Rightarrow> st)"

text \<open>
  \<open>_rollback_action\<close> mutates the action, the agent state and the executor, and returns
  \<open>True\<close>: none of its statements raises on these types.
\<close>

definition rollback_action :: "datetime \<Rightarrow> Action \<Rightarrow> AgentState \<Rightarrow> PaymentExecutor
    \<Rightarrow> bool \<times> Action \<times> AgentState \<times> PaymentExecutor" where
  "rollback_action now a st ex =
     (let st1 = reverse_write a st;
          ex1 = ex\<lparr>active_interventions := AList.delete (action_id a) (active_interventions ex)\<rparr>;
          a1 = a\<lparr>status := ''rolled_back'', completed_at := Some now\<rparr>
      in (True, a1, st1, ex1))"

definition find_baseline_for_action :: "PaymentExecutor \<Rightarrow> string \<Rightarrow> snapshot option" where
  "find_baseline_for_action ex aid =
     map_option le_baseline_metrics (find (\<lambda>e. le_action_id e = aid) (rev (execution_log ex)))"

text \<open>
  \<open>monitor_and_rollback\<close> returns the identifiers it rolled back; it also mutates the
  rolled-back actions, the agent state and the executor, and logs one reason for each.
  The loop runs over a copy of the active interventions taken before the first step.
\<close>

record monitor_result =
  mr_rolled_back :: "string list"
  mr_actions :: "Action list"
  mr_reasons :: "string list"
  mr_state :: AgentState
  mr_executor :: PaymentExecutor

fun monitor_loop :: "(real \<Rightarrow> string) \<Rightarrow> datetime \<Rightarrow> snapshot \<Rightarrow> (string \<times> Action) list \<Rightarrow> monitor_result
    \<Rightarrow> monitor_result" where
  "monitor_loop pct now current [] r = r"
| "monitor_loop pct now current (ka # rest) r =
     (case find_baseline_for_action (mr_executor r) (fst ka) of
        None \<Rightarrow> monitor_loop pct now current rest r
      | Some baseline \<Rightarrow>
          (let sr = should_rollback pct (mr_executor r) now (snd ka) baseline current
           in if fst sr then
                (let rb = rollback_action now (snd ka) (mr_state r) (mr_executor r);
                     a1 = fst (snd rb);
                     st1 = fst (snd (snd rb));
                     ex1 = snd (snd (snd rb))
                 in if fst rb then
                      monitor_loop pct now current rest
                        \<lparr>mr_rolled_back = mr_rolled_back r @ [fst ka],
                         mr_actions = mr_actions r @ [a1],
                         mr_reasons = mr_reasons r @ [snd sr],
                         mr_state = st1\<lparr>rollbacks_last_hour := rollbacks_last_hour st1 + 1\<rparr>,
                         mr_executor = ex1\<rparr>
                    else monitor_loop pct now current rest (r\<lparr>mr_state := st1, mr_executor := ex1\<rparr>))
              else monitor_loop pct now current rest r))"

definition monitor_and_rollback :: "(real \<Rightarrow> string) \<Rightarrow> datetime \<Rightarrow> AgentState \<Rightarrow> PaymentObserver \<Rightarrow> PaymentExecutor
    \<Rightarrow> monitor_result" where
  "monitor_and_rollback pct now st obs ex =
     monitor_loop pct now (capture_baseline_metrics now obs) (active_interventions ex)
       \<lparr>mr_rolled_back = [], mr_actions = [], mr_reasons = [], mr_state = st, mr_executor = ex\<rparr>"

text \<open>The executor's steps, and a run of them from a state.\<close>

datatype executor_op =
    Execute datetime Action PaymentObserver
  | Monitor datetime PaymentObserver

fun executor_step :: "(real \<Rightarrow> string) \<Rightarrow> executor_op \<Rightarrow> AgentState \<times> PaymentExecutor \<Rightarrow> AgentState \<times> PaymentExecutor" where
  "executor_step pct (Execute now a obs) s = snd (snd (execute now a (fst s) obs (snd s)))"
| "executor_step pct (Monitor now obs) s =
     (let r = monitor_and_rollback pct now (fst s) obs (snd s) in (mr_state r, mr_executor r))"

definition executor_run :: "(real \<Rightarrow> string) \<Rightarrow> executor_op list \<Rightarrow> AgentState \<times> PaymentExecutor \<Rightarrow> AgentState \<times> PaymentExecutor" where
  "executor_run pct ops s = fold (executor_step pct) ops s"

section \<open>safety/guardrails.py\<close>

record SafetyLimits =
  max_traffic_impact_percent :: real
  max_actions_per_hour :: int
  max_rollbacks_per_hour :: int
  max_concurrent_interventions :: int
  min_confidence_for_action :: real
  min_score_for_action :: real
  auto_approve_impact_threshold :: real
  manual_approve_impact_threshold :: real

definition safety_limits_default :: SafetyLimits where
  "safety_limits_default =
     \<lparr>max_traffic_impact_percent = 15, max_actions_per_hour = 10, max_rollbacks_per_hour = 3,
      max_concurrent_interventions = 5, min_confidence_for_action = 6 / 10,
      min_score_for_action = 5 / 10, auto_approve_impact_threshold = 5,
      manual_approve_impact_threshold = 20\<rparr>"

datatype guard_level = G_AUTOMATIC | G_SEMI_AUTOMATIC | G_MANUAL | G_BLOCKED

definition check_rate_limit :: "SafetyLimits \<Rightarrow> AgentState \<Rightarrow> bool" where
  "check_rate_limit limits st = (actions_executed st < max_actions_per_hour limits * 24)"

text \<open>
  \<open>SafetyGuardrails.check_action_allowed\<close>, without the text of its reasons.  Its third
  check reads \<open>state.active_actions\<close>, an attribute that \<open>AgentState\<close> does not have, so
  a call that passes the first two checks raises \<open>AttributeError\<close> there and the later
  checks are never reached.
\<close>

definition check_action_allowed :: "SafetyLimits \<Rightarrow> Action \<Rightarrow> AgentState \<Rightarrow> error + bool \<times> guard_level" where
  "check_action_allowed limits a st =
     (if \<not> check_rate_limit limits st then Inr (False, G_BLOCKED)
      else if rollbacks_last_hour st \<ge> max_rollbacks_per_hour limits then Inr (False, G_BLOCKED)
      else Inl AttributeError)"

section \<open>agent/learner.py: tuning the decision weights\<close>

datatype objective = Success_rate | Latency | Cost | Risk




record actual_impact_t =
  ai_success_rate_delta :: "real option"
  ai_latency_delta :: "real option"

text \<open>A recorded outcome, with the fields that the weight update reads.\<close>

record outcome =
  out_action_id :: string
  out_estimated_impact :: impact
  out_actual_impact :: actual_impact_t

fun action_type_value :: "ActionType \<Rightarrow> string" where
  "action_type_value ADJUST_RETRY = ''adjust_retry''"
| "action_type_value CIRCUIT_BREAKER = ''circuit_breaker''"
| "action_type_value ROUTE_CHANGE = ''route_change''"
| "action_type_value METHOD_SUPPRESS = ''method_suppress''"
| "action_type_value ALERT_OPS = ''alert_ops''"
| "action_type_value NO_ACTION = ''no_action''"

type_synonym action_outcomes_t = "(string \<times> outcome list) list"

definition record_outcome :: "Action \<Rightarrow> snapshot \<Rightarrow> snapshot \<Rightarrow> action_outcomes_t \<Rightarrow> action_outcomes_t" where
  "record_outcome a baseline_metrics actual_metrics ao =
     (let actual_impact =
            \<lparr>ai_success_rate_delta = Some (snap_success_rate actual_metrics - snap_success_rate baseline_metrics),
             ai_latency_delta = Some (snap_avg_latency actual_metrics - snap_avg_latency baseline_metrics)\<rparr>;
          outc = \<lparr>out_action_id = action_id a, out_estimated_impact = estimated_impact a,
                  out_actual_impact = actual_impact\<rparr>;
          action_key = action_type_value (action_type a) @ ''_'' @ target a
      in dd_modify (\<lambda>l. l @ [outc]) [] action_key ao)"

text \<open>
  Whether an outcome appends \<open>1.0\<close> to the scores of an objective: the action improved
  the success rate, and its estimate for the objective was favourable.  Nothing is ever
  appended for \<open>'risk'\<close>.
\<close>

fun favourable :: "objective \<Rightarrow> impact \<Rightarrow> bool" where
  "favourable Success_rate est = (get_or (success_rate_delta est) 0 > 0)"
| "favourable Latency est = (get_or (latency_delta_ms est) 0 < 0)"
| "favourable Cost est = (get_or (cost_delta_per_txn est) 0 \<le> 2 / 100)"
| "favourable Risk est = False"

definition objective_scores :: "action_outcomes_t \<Rightarrow> objective \<Rightarrow> real list" where
  "objective_scores ao obj =
     map (\<lambda>outc. 1)
       (filter (\<lambda>outc. get_or (ai_success_rate_delta (out_actual_impact outc)) 0 > 0
                        \<and> favourable obj (out_estimated_impact outc))
               (concat (map snd ao)))"




section \<open>Predicates used to state the properties\<close>

text \<open>
  The number of transactions of a window that are counted under key \<open>k\<close> of dimension
  \<open>d\<close>: the successful ones, the others, and all of them.
\<close>

definition n_success :: "dimension \<Rightarrow> string \<Rightarrow> PaymentTransaction list \<Rightarrow> int" where
  "n_success d k ts = int (length (filter (\<lambda>t. dim_key d t = k \<and> txn_status t = SUCCESS) ts))"

definition n_failed :: "dimension \<Rightarrow> string \<Rightarrow> PaymentTransaction list \<Rightarrow> int" where
  "n_failed d k ts = int (length (filter (\<lambda>t. dim_key d t = k \<and> txn_status t \<noteq> SUCCESS) ts))"

definition n_total :: "dimension \<Rightarrow> string \<Rightarrow> PaymentTransaction list \<Rightarrow> int" where
  "n_total d k ts = int (length (filter (\<lambda>t. dim_key d t = k) ts))"

text \<open>The counters agree with the window, and no dictionary of counters repeats a key.\<close>

definition stats_consistent :: "PaymentObserver \<Rightarrow> bool" where
  "stats_consistent obs =
     (\<forall>d k. success (dd_get (stats obs d) zero_counter k) = n_success d k (transactions_window obs)
          \<and> failed (dd_get (stats obs d) zero_counter k) = n_failed d k (transactions_window obs)
          \<and> total (dd_get (stats obs d) zero_counter k) = n_total d k (transactions_window obs))"

definition stats_distinct :: "PaymentObserver \<Rightarrow> bool" where
  "stats_distinct obs = (\<forall>d. distinct (map fst (stats obs d)))"


text \<open>
  The invariant of the executor: the active interventions are keyed by their own
  identifiers without repetition, each has a baseline in the execution log, no two share
  type and target, and the rollback thresholds are the initial ones.
\<close>

definition exec_inv :: "PaymentExecutor \<Rightarrow> bool" where
  "exec_inv ex =
     (distinct (map fst (active_interventions ex))
      \<and> (\<forall>ka \<in> set (active_interventions ex).
            fst ka = action_id (snd ka) \<and> find_baseline_for_action ex (fst ka) \<noteq> None)
      \<and> distinct (map (\<lambda>ka. (action_type (snd ka), target (snd ka))) (active_interventions ex))
      \<and> rollback_thresholds ex = rollback_thresholds executor_init)"

text \<open>
  Whether \<open>monitor_and_rollback\<close> rolls an active intervention back, and the reason it
  logs: the baseline is found and \<open>_should_rollback\<close> says so.
\<close>

definition due :: "(real \<Rightarrow> string) \<Rightarrow> datetime \<Rightarrow> snapshot \<Rightarrow> PaymentExecutor \<Rightarrow> string \<times> Action \<Rightarrow> bool" where
  "due pct now current ex ka =
     (case find_baseline_for_action ex (fst ka) of
        None \<Rightarrow> False
      | Some b \<Rightarrow> fst (should_rollback pct ex now (snd ka) b current))"

definition due_reason :: "(real \<Rightarrow> string) \<Rightarrow> datetime \<Rightarrow> snapshot \<Rightarrow> PaymentExecutor \<Rightarrow> string \<times> Action \<Rightarrow> string" where
  "due_reason pct now current ex ka =
     (case find_baseline_for_action ex (fst ka) of
        None \<Rightarrow> []
      | Some b \<Rightarrow> snd (should_rollback pct ex now (snd ka) b current))"

text \<open>
  The effect of one rollback inside \<open>monitor_and_rollback\<close> on the agent state and on
  the executor.
\<close>

definition undo_step :: "string \<times> Action \<Rightarrow> AgentState \<Rightarrow> AgentState" where
  "undo_step ka st =
     (reverse_write (snd ka) st)\<lparr>rollbacks_last_hour := rollbacks_last_hour (reverse_write (snd ka) st) + 1\<rparr>"

definition drop_step :: "string \<times> Action \<Rightarrow> PaymentExecutor \<Rightarrow> PaymentExecutor" where
  "drop_step ka ex = ex\<lparr>active_interventions := AList.delete (action_id (snd ka)) (active_interventions ex)\<rparr>"


text \<open>The state write of an action is reversed in a state.\<close>

definition write_reversed :: "Action \<Rightarrow> AgentState \<Rightarrow> bool" where
  "write_reversed a st =
     (case action_type a of
        CIRCUIT_BREAKER \<Rightarrow>
          (case p_issuer (parameters a) of Some i \<Rightarrow> i \<notin> active_circuit_breakers st | None \<Rightarrow> True)
      | ADJUST_RETRY \<Rightarrow> retry_strategies st (target a) = None
      | ROUTE_CHANGE \<Rightarrow> routing_overrides st (target a) = None
      | METHOD_SUPPRESS \<Rightarrow>
          (case p_payment_method (parameters a) of Some m \<Rightarrow> m \<notin> suppressed_methods st | None \<Rightarrow> True)
      | ALERT_OPS \<Rightarrow> True
      | NO_ACTION \<Rightarrow> True)"

text \<open>
  The weight that \<open>update_decision_weights\<close> (learning rate 0.1) stores for an objective
  before it normalises: clamped to \<open>[0.05, 0.60]\<close> after adding 0.05 when the objective
  has scores, unchanged otherwise.  \<open>scored\<close> counts the objectives that have scores,
  and \<open>weights_of\<close> is the dictionary with the four given weights.
\<close>

definition adjusted :: "action_outcomes_t \<Rightarrow> objective \<Rightarrow> real \<Rightarrow> real" where
  "adjusted ao obj x =
     (if objective_scores ao obj \<noteq> [] then max (5 / 100) (min (60 / 100) (x + 5 / 100)) else x)"



section \<open>Example inputs\<close>

text \<open>
  A failed retry with an error code and a latency sample, stamped at time 0, and the
  same transaction without latency sample and error code.
\<close>

definition old_failed_txn :: PaymentTransaction where
  "old_failed_txn =
     \<lparr>transaction_id = ''t1'', timestamp = 0, amount = 100, currency = ''INR'',
      payment_method = UPI, issuer = ''HDFC'', merchant_id = ''m1'', txn_status = FAILED,
      error_code = Some ''E42'', error_message = Some ''declined'', latency_ms = 500,
      retry_count = 1, is_retry = True, original_transaction_id = Some ''t0'',
      region = ''south'', processor = ''default''\<rparr>"

definition quiet_txn :: PaymentTransaction where
  "quiet_txn = old_failed_txn\<lparr>latency_ms := 0, error_code := None\<rparr>"

text \<open>
  An observer with a window of ten minutes that ingests the first transaction at time
  0, when it is inside the window, and the second one a thousand seconds later, when
  both are older than the window: the second ingestion evicts both.
\<close>

definition evicted_observer :: PaymentObserver where
  "evicted_observer =
     observer_run [Ingest 0 old_failed_txn, Ingest 1000000000 quiet_txn] (observer_init 10)"


text \<open>A pending action that does nothing, and a circuit breaker on issuer \<open>HDFC\<close>.\<close>

definition action0 :: Action where
  "action0 =
     \<lparr>action_id = ''a0'', action_type = NO_ACTION, target = ''none'', parameters = no_parameters,
      risk_level = LOW, authorization_level = AUTOMATIC,
      estimated_impact = \<lparr>success_rate_delta = None, latency_delta_ms = None,
                           cost_delta_per_txn = None, affected_traffic_pct = None\<rparr>,
      act_confidence = 1, executed_at = None, completed_at = None, status = ''pending'',
      approver = None\<rparr>"

definition breaker_hdfc :: Action where
  "breaker_hdfc =
     action0\<lparr>action_id := ''cb1'', action_type := CIRCUIT_BREAKER, target := ''HDFC'',
             parameters := no_parameters\<lparr>p_issuer := Some ''HDFC'', p_duration_minutes := Some 10\<rparr>,
             risk_level := MEDIUM\<rparr>"

text \<open>
  A formatter of percentages that is right at 100 percent, an observer whose window
  holds one failed transaction, and the state after executing the circuit breaker on
  \<open>HDFC\<close> while the observer was still fresh.
\<close>

definition show_pct :: "real \<Rightarrow> string" where
  "show_pct x = (if x = 1 then ''100.0%'' else ''?'')"



text \<open>
  An alert action with a given identifier and target, and the state after executing
  five of them.
\<close>

definition alert :: "string \<Rightarrow> Action" where
  "alert n = action0\<lparr>action_id := n, action_type := ALERT_OPS, target := n\<rparr>"

definition five_active :: "AgentState \<times> PaymentExecutor" where
  "five_active =
     executor_run show_pct
       [Execute 0 (alert ''ops1'') (observer_init 10), Execute 0 (alert ''ops2'') (observer_init 10),
        Execute 0 (alert ''ops3'') (observer_init 10), Execute 0 (alert ''ops4'') (observer_init 10),
        Execute 0 (alert ''ops5'') (observer_init 10)]
       (agent_state_init, executor_init)"






section \<open>The counters follow the window\<close>

lemma dd_get_modify:
  "dd_get (dd_modify f dflt k d) dflt k' = (if k' = k then f (dd_get d dflt k) else dd_get d dflt k')"
  by (simp add: dd_get_def dd_modify_def update_conv')

lemma bump_fields:
  "success (bump n t c) = success c + (if txn_status t = SUCCESS then n else 0)"
  "failed (bump n t c) = failed c + (if txn_status t = SUCCESS then 0 else n)"
  "total (bump n t c) = total c + n"
  by (simp_all add: bump_def Let_def)

lemma bump_dim_get:
  "dd_get (bump_dim n t d st d') zero_counter k =
     (if d' = d \<and> k = dim_key d t then bump n t (dd_get (st d) zero_counter k)
      else dd_get (st d') zero_counter k)"
  by (simp add: bump_dim_def dd_get_modify)

lemma update_stats_get:
  "dd_get (update_stats t st d) zero_counter k =
     (if k = dim_key d t then bump 1 t (dd_get (st d) zero_counter k) else dd_get (st d) zero_counter k)"
  by (cases d) (simp_all add: update_stats_def bump_dim_get)

lemma remove_from_stats_get:
  "dd_get (remove_from_stats t st d) zero_counter k =
     (if k = dim_key d t then bump (- 1) t (dd_get (st d) zero_counter k) else dd_get (st d) zero_counter k)"
  by (cases d) (simp_all add: remove_from_stats_def bump_dim_get)

lemma n_Cons:
  "n_success d k (t # ts) = n_success d k ts + (if dim_key d t = k \<and> txn_status t = SUCCESS then 1 else 0)"
  "n_failed d k (t # ts) = n_failed d k ts + (if dim_key d t = k \<and> txn_status t \<noteq> SUCCESS then 1 else 0)"
  "n_total d k (t # ts) = n_total d k ts + (if dim_key d t = k then 1 else 0)"
  by (simp_all add: n_success_def n_failed_def n_total_def)

lemma n_append:
  "n_success d k (ts @ us) = n_success d k ts + n_success d k us"
  "n_failed d k (ts @ us) = n_failed d k ts + n_failed d k us"
  "n_total d k (ts @ us) = n_total d k ts + n_total d k us"
  by (simp_all add: n_success_def n_failed_def n_total_def)

lemma n_total_split: "n_total d k ts = n_success d k ts + n_failed d k ts"
  by (induction ts) (auto simp: n_Cons, simp_all add: n_success_def n_failed_def n_total_def)

lemma cleanup_loop_counts:
  "cleanup_loop c ts st = (w, st') \<Longrightarrow>
     success (dd_get (st' d) zero_counter k) + n_success d k ts
       = success (dd_get (st d) zero_counter k) + n_success d k w
   \<and> failed (dd_get (st' d) zero_counter k) + n_failed d k ts
       = failed (dd_get (st d) zero_counter k) + n_failed d k w
   \<and> total (dd_get (st' d) zero_counter k) + n_total d k ts
       = total (dd_get (st d) zero_counter k) + n_total d k w"
proof (induction ts arbitrary: st)
  case Nil
  then show ?case by simp
next
  case (Cons t ts)
  show ?case
  proof (cases "timestamp t < c")
    case True
    with Cons.prems have "cleanup_loop c ts (remove_from_stats t st) = (w, st')" by simp
    from Cons.IH[OF this] show ?thesis
      by (cases "k = dim_key d t"; cases "txn_status t = SUCCESS")
         (simp_all add: remove_from_stats_get bump_fields n_Cons)
  next
    case False
    with Cons.prems show ?thesis by auto
  qed
qed

lemma cleanup_consistent:
  assumes "stats_consistent obs"
  shows "stats_consistent (cleanup_old_transactions now obs)"
proof -
  obtain w st' where c: "cleanup_loop (now - window_size obs) (transactions_window obs) (stats obs) = (w, st')"
    by (cases "cleanup_loop (now - window_size obs) (transactions_window obs) (stats obs)")
  have "\<And>d k. success (dd_get (st' d) zero_counter k) = n_success d k w
          \<and> failed (dd_get (st' d) zero_counter k) = n_failed d k w
          \<and> total (dd_get (st' d) zero_counter k) = n_total d k w"
    using cleanup_loop_counts[OF c] assms unfolding stats_consistent_def by fastforce
  then show ?thesis
    by (simp add: cleanup_old_transactions_def c stats_consistent_def)
qed

lemma track_latency_frame [simp]:
  "stats (track_latency t obs) = stats obs"
  "transactions_window (track_latency t obs) = transactions_window obs"
  by (simp_all add: track_latency_def)

lemma track_errors_frame [simp]:
  "stats (track_errors t obs) = stats obs"
  "transactions_window (track_errors t obs) = transactions_window obs"
  by (simp_all add: track_errors_def Let_def)

lemma track_retries_frame [simp]:
  "stats (track_retries t obs) = stats obs"
  "transactions_window (track_retries t obs) = transactions_window obs"
  by (simp_all add: track_retries_def Let_def)

lemma ingest_consistent:
  assumes "stats_consistent obs"
  shows "stats_consistent (ingest_transaction now t obs)"
proof -
  let ?W = "transactions_window obs @ [t]"
  obtain w st' where c: "cleanup_loop (now - window_size obs) ?W (stats obs) = (w, st')"
    by (cases "cleanup_loop (now - window_size obs) ?W (stats obs)")
  have win: "transactions_window (ingest_transaction now t obs) = w"
    and st: "stats (ingest_transaction now t obs) = update_stats t st'"
    by (simp_all add: ingest_transaction_def Let_def cleanup_old_transactions_def c)
  have "\<And>d k. success (dd_get (update_stats t st' d) zero_counter k) = n_success d k w
          \<and> failed (dd_get (update_stats t st' d) zero_counter k) = n_failed d k w
          \<and> total (dd_get (update_stats t st' d) zero_counter k) = n_total d k w"
  proof -
    fix d k
    from cleanup_loop_counts[OF c, of d k] assms
    show "success (dd_get (update_stats t st' d) zero_counter k) = n_success d k w
          \<and> failed (dd_get (update_stats t st' d) zero_counter k) = n_failed d k w
          \<and> total (dd_get (update_stats t st' d) zero_counter k) = n_total d k w"
      unfolding stats_consistent_def
      by (cases "k = dim_key d t"; cases "txn_status t = SUCCESS")
         (simp_all add: update_stats_get bump_fields n_append n_Cons n_success_def[of d _ "[]"]
            n_failed_def[of d _ "[]"] n_total_def[of d _ "[]"])
  qed
  then show ?thesis
    unfolding stats_consistent_def win st by blast
qed

lemma init_consistent: "stats_consistent (observer_init m)"
  by (simp add: stats_consistent_def observer_init_def dd_get_def zero_counter_def
        n_success_def n_failed_def n_total_def)

lemma step_consistent: "stats_consistent obs \<Longrightarrow> stats_consistent (observer_step op obs)"
  by (cases op) (simp_all add: ingest_consistent cleanup_consistent)

lemma run_consistent: "stats_consistent obs \<Longrightarrow> stats_consistent (observer_run ops obs)"
  unfolding observer_run_def
  by (induction ops arbitrary: obs) (simp_all add: step_consistent)

text \<open>
  Claim C1.  After any sequence of ingestions and evictions from a fresh observer, for
  every dimension and every key of it, the counter's \<open>total\<close> equals
  \<open>success + failed\<close> and the three counters are non-negative.  The states are those
  at the boundaries of \<open>ingest_transaction\<close> and \<open>_cleanup_old_transactions\<close>.
\<close>

theorem C1_stats_invariant:
  "total (dd_get (stats (observer_run ops (observer_init m)) d) zero_counter k)
     = success (dd_get (stats (observer_run ops (observer_init m)) d) zero_counter k)
       + failed (dd_get (stats (observer_run ops (observer_init m)) d) zero_counter k)
   \<and> 0 \<le> success (dd_get (stats (observer_run ops (observer_init m)) d) zero_counter k)
   \<and> 0 \<le> failed (dd_get (stats (observer_run ops (observer_init m)) d) zero_counter k)
   \<and> 0 \<le> total (dd_get (stats (observer_run ops (observer_init m)) d) zero_counter k)"
proof -
  have "stats_consistent (observer_run ops (observer_init m))"
    by (rule run_consistent[OF init_consistent])
  then show ?thesis
    unfolding stats_consistent_def
    by (simp add: n_total_split) (simp add: n_success_def n_failed_def)
qed

section \<open>The dictionaries of counters never repeat a key\<close>

lemma dd_modify_distinct:
  "distinct (map fst d) \<Longrightarrow> distinct (map fst (dd_modify f dflt k d))"
  by (simp add: dd_modify_def distinct_update)

lemma bump_dim_distinct:
  "(\<forall>d. distinct (map fst (st d))) \<Longrightarrow> distinct (map fst (bump_dim n t d' st d))"
  by (simp add: bump_dim_def dd_modify_distinct)

lemma update_stats_distinct:
  "(\<forall>d. distinct (map fst (st d))) \<Longrightarrow> distinct (map fst (update_stats t st d))"
  unfolding update_stats_def by (intro bump_dim_distinct allI) simp

lemma remove_from_stats_distinct:
  "(\<forall>d. distinct (map fst (st d))) \<Longrightarrow> distinct (map fst (remove_from_stats t st d))"
  unfolding remove_from_stats_def by (intro bump_dim_distinct allI) simp

lemma cleanup_loop_distinct:
  "(\<forall>d. distinct (map fst (st d))) \<Longrightarrow> distinct (map fst (snd (cleanup_loop c ts st) d))"
  by (induction ts arbitrary: st) (simp_all add: remove_from_stats_distinct)

lemma cleanup_distinct:
  "stats_distinct obs \<Longrightarrow> stats_distinct (cleanup_old_transactions now obs)"
  using cleanup_loop_distinct[of "stats obs" "now - window_size obs" "transactions_window obs"]
  by (simp add: stats_distinct_def cleanup_old_transactions_def split_beta Let_def)

lemma ingest_distinct:
  assumes "stats_distinct obs"
  shows "stats_distinct (ingest_transaction now t obs)"
proof -
  have "stats (ingest_transaction now t obs)
          = update_stats t (snd (cleanup_loop (now - window_size obs) (transactions_window obs @ [t]) (stats obs)))"
    by (simp add: ingest_transaction_def Let_def cleanup_old_transactions_def split_beta)
  moreover have "\<forall>d. distinct (map fst (snd (cleanup_loop (now - window_size obs) (transactions_window obs @ [t]) (stats obs)) d))"
    using assms by (simp add: stats_distinct_def cleanup_loop_distinct)
  ultimately show ?thesis
    by (simp add: stats_distinct_def update_stats_distinct)
qed

lemma run_distinct: "stats_distinct (observer_run ops (observer_init m))"
proof -
  have step: "\<And>op obs. stats_distinct obs \<Longrightarrow> stats_distinct (observer_step op obs)"
    subgoal for op obs by (cases op) (simp_all add: ingest_distinct cleanup_distinct)
    done
  have "stats_distinct obs \<Longrightarrow> stats_distinct (fold observer_step ops obs)" for obs
    by (induction ops arbitrary: obs) (simp_all add: step)
  moreover have "stats_distinct (observer_init m)"
    by (simp add: stats_distinct_def observer_init_def)
  ultimately show ?thesis by (simp add: observer_run_def)
qed

lemma evicted_window: "transactions_window evicted_observer = []"
  by (simp add: evicted_observer_def observer_run_def ingest_transaction_def old_failed_txn_def
      quiet_txn_def observer_init_def minutes_def cleanup_old_transactions_def Let_def track_latency_def
      track_errors_def track_retries_def)


lemma evicted_facts:
  "get_top_errors 5 evicted_observer = [(''E42'', 1)]"
  "lat_overall evicted_observer = [500]"
  "get_retry_efficiency evicted_observer = 0"
  "stats evicted_observer Overall = [(''current'', zero_counter)]"
  "error_codes evicted_observer = [(''E42'', 1)]"
  by (simp_all add: evicted_observer_def observer_run_def ingest_transaction_def old_failed_txn_def
      quiet_txn_def observer_init_def minutes_def cleanup_old_transactions_def Let_def track_latency_def
      track_errors_def track_retries_def get_top_errors_def dd_modify_def dd_get_def ring_append_def
      update_stats_def remove_from_stats_def bump_dim_def bump_def zero_counter_def
      get_retry_efficiency_def zero_retry_def add_transaction_def)

lemma evicted_latency:
  "get_latency_stats Lat_overall [] evicted_observer
     = \<lparr>lat_p50 = 500, lat_p95 = 500, lat_p99 = 500, lat_mean = 500, lat_max = 500\<rparr>"
  by (simp add: get_latency_stats_def latencies_of_def evicted_facts np_percentile_def np_mean_def np_max_def Let_def)

section \<open>Eviction and the empty window\<close>

lemma evicted_stats: "stats evicted_observer d = [(dim_key d old_failed_txn, zero_counter)]"
  by (cases d) (simp_all add: evicted_observer_def observer_run_def ingest_transaction_def old_failed_txn_def
      quiet_txn_def observer_init_def minutes_def cleanup_old_transactions_def Let_def track_latency_def
      track_errors_def track_retries_def dd_modify_def dd_get_def
      update_stats_def remove_from_stats_def bump_dim_def bump_def zero_counter_def)

lemma collect_nil: "(\<And>x. x \<in> set xs \<Longrightarrow> body x = Inr []) \<Longrightarrow> collect body xs = Inr []"
  by (induction xs) (simp_all add: bind_err_def)

text \<open>
  Claim C10.  Eviction changes only the window and the per-dimension counters: the
  error-code and error-message counts, the retry statistics, the latency rings (and the
  memory and the window size) are left as they are, so the top errors, the retry
  efficiency and the latency statistics are the same after an eviction as before it.
  They can therefore reflect transactions that have left the window: after the
  transactions of \<open>evicted_observer\<close> have been evicted, the error code, the failed
  retries and the latency sample are still reported.
\<close>

theorem C10_eviction_frame:
  "error_codes (cleanup_old_transactions now obs) = error_codes obs
   \<and> error_messages (cleanup_old_transactions now obs) = error_messages obs
   \<and> retry_stats (cleanup_old_transactions now obs) = retry_stats obs
   \<and> lat_overall (cleanup_old_transactions now obs) = lat_overall obs
   \<and> lat_by_issuer (cleanup_old_transactions now obs) = lat_by_issuer obs
   \<and> lat_by_method (cleanup_old_transactions now obs) = lat_by_method obs
   \<and> memory_recent (cleanup_old_transactions now obs) = memory_recent obs
   \<and> window_size (cleanup_old_transactions now obs) = window_size obs
   \<and> get_top_errors n (cleanup_old_transactions now obs) = get_top_errors n obs
   \<and> get_retry_efficiency (cleanup_old_transactions now obs) = get_retry_efficiency obs
   \<and> get_latency_stats ld k (cleanup_old_transactions now obs) = get_latency_stats ld k obs
   \<and> transactions_window evicted_observer = []
   \<and> get_top_errors 5 evicted_observer = [(''E42'', 1)]
   \<and> get_retry_efficiency evicted_observer = 0
   \<and> lat_mean (get_latency_stats Lat_overall [] evicted_observer) = 500"
proof -
  have f: "error_codes (cleanup_old_transactions now obs) = error_codes obs"
    "error_messages (cleanup_old_transactions now obs) = error_messages obs"
    "retry_stats (cleanup_old_transactions now obs) = retry_stats obs"
    "lat_overall (cleanup_old_transactions now obs) = lat_overall obs"
    "lat_by_issuer (cleanup_old_transactions now obs) = lat_by_issuer obs"
    "lat_by_method (cleanup_old_transactions now obs) = lat_by_method obs"
    "memory_recent (cleanup_old_transactions now obs) = memory_recent obs"
    "window_size (cleanup_old_transactions now obs) = window_size obs"
    by (simp_all add: cleanup_old_transactions_def Let_def split_beta)
  have q: "get_top_errors n (cleanup_old_transactions now obs) = get_top_errors n obs"
    "get_retry_efficiency (cleanup_old_transactions now obs) = get_retry_efficiency obs"
    "get_latency_stats ld k (cleanup_old_transactions now obs) = get_latency_stats ld k obs"
    by (simp_all add: get_top_errors_def get_retry_efficiency_def get_latency_stats_def
          latencies_of_def f split: latency_dimension.split)
  show ?thesis
    using f q by (simp add: evicted_window evicted_facts evicted_latency)
qed

text \<open>
  Claim C8 fails as stated.  With an empty window the latency statistics need not be
  zero and \<open>analyze\<close> may emit a pattern: the latency ring of \<open>evicted_observer\<close> still
  holds the sample of the evicted transaction, and the reasoner reports a latency spike.
\<close>

theorem C8_counterexample:
  "transactions_window evicted_observer = []
   \<and> lat_p50 (get_latency_stats Lat_overall [] evicted_observer) = 500
   \<and> analyze reasoner_init evicted_observer
       = Inr [\<lparr>pattern_type = ''latency_spike'', severity = 3 / 4, confidence = 8 / 10,
               affected_dimension = ''overall'', affected_value = ''latency'',
               metrics = [(''p50'', 500), (''p95'', 500), (''p99'', 500), (''mean'', 500),
                          (''baseline'', 200), (''spike_factor'', 5 / 2)]\<rparr>]"
proof -
  have a: "detect_issuer_degradation reasoner_init evicted_observer = Inr []"
    by (simp add: detect_issuer_degradation_def get_issuer_health_def evicted_stats zero_counter_def)
  have b: "detect_retry_storms reasoner_init evicted_observer = Inr []"
    by (simp add: detect_retry_storms_def get_transaction_volume_def evicted_stats dd_get_def
        zero_counter_def old_failed_txn_def)
  have c: "detect_method_fatigue reasoner_init evicted_observer = Inr []"
    by (simp add: detect_method_fatigue_def get_method_performance_def evicted_stats zero_counter_def)
  have d: "detect_latency_spikes reasoner_init evicted_observer
       = Inr [\<lparr>pattern_type = ''latency_spike'', severity = 3 / 4, confidence = 8 / 10,
               affected_dimension = ''overall'', affected_value = ''latency'',
               metrics = [(''p50'', 500), (''p95'', 500), (''p99'', 500), (''mean'', 500),
                          (''baseline'', 200), (''spike_factor'', 5 / 2)]\<rparr>]"
    by (simp add: detect_latency_spikes_def evicted_latency reasoner_init_def Let_def)
  have e: "detect_error_clusters reasoner_init evicted_observer = Inr []"
    by (simp add: detect_error_clusters_def evicted_facts error_cluster_body_def reasoner_init_def bind_err_def)
  have f: "detect_geographic_issues evicted_observer = Inr []"
    by (simp add: detect_geographic_issues_def evicted_stats geographic_body_def zero_counter_def bind_err_def)
  show ?thesis
    by (simp add: analyze_def a b c d e f bind_err_def evicted_window evicted_latency)
qed

lemma entries_zero:
  assumes "stats_consistent obs" "stats_distinct obs" "transactions_window obs = []"
    and "kc \<in> set (stats obs d)"
  shows "total (snd kc) = 0"
proof -
  have "distinct (map fst (stats obs d))" using assms(2) by (simp add: stats_distinct_def)
  with assms(4) have "map_of (stats obs d) (fst kc) = Some (snd kc)" by simp
  then have "dd_get (stats obs d) zero_counter (fst kc) = snd kc" by (simp add: dd_get_def)
  moreover have "total (dd_get (stats obs d) zero_counter (fst kc)) = n_total d (fst kc) []"
    using assms(1,3) by (simp add: stats_consistent_def)
  ultimately show ?thesis by (simp add: n_total_def)
qed

lemma empty_window_analyze:
  assumes c: "stats_consistent obs" and di: "stats_distinct obs" and w: "transactions_window obs = []"
    and l: "lat_overall obs = []"
    and e: "\<forall>kc \<in> set (error_codes obs). snd kc < thr_error_cluster (thresholds r)"
    and b: "0 \<le> base_avg_latency (baselines r) * thr_latency_spike (thresholds r)"
  shows "analyze r obs = Inr []"
proof -
  have z: "\<And>d. filter (\<lambda>kc. total (snd kc) \<noteq> 0) (stats obs d) = []"
    using entries_zero[OF c di w] by (simp add: filter_empty_conv)
  have v: "get_transaction_volume Overall ''current'' obs = 0"
    using c w by (simp add: get_transaction_volume_def stats_consistent_def n_total_def)
  have 1: "detect_issuer_degradation r obs = Inr []"
    by (simp add: detect_issuer_degradation_def get_issuer_health_def z)
  have 2: "detect_retry_storms r obs = Inr []"
    by (simp add: detect_retry_storms_def v)
  have 3: "detect_method_fatigue r obs = Inr []"
    by (simp add: detect_method_fatigue_def get_method_performance_def z)
  have 4: "detect_latency_spikes r obs = Inr []"
    using b by (simp add: detect_latency_spikes_def get_latency_stats_def latencies_of_def l)
  have 5: "detect_error_clusters r obs = Inr []"
    unfolding detect_error_clusters_def
  proof (rule collect_nil)
    fix x assume "x \<in> set (get_top_errors 5 obs)"
    then have "x \<in> set (error_codes obs)"
      by (auto simp: get_top_errors_def dest: in_set_takeD)
    with e show "error_cluster_body r obs x = Inr []"
      by (auto simp: error_cluster_body_def)
  qed
  have 6: "detect_geographic_issues obs = Inr []"
    unfolding detect_geographic_issues_def
  proof (rule collect_nil)
    fix x assume "x \<in> set (stats obs By_region)"
    from entries_zero[OF c di w this] show "geographic_body obs x = Inr []"
      by (simp add: geographic_body_def)
  qed
  show ?thesis by (simp add: analyze_def 1 2 3 4 5 6 bind_err_def)
qed

text \<open>
  Claim C8, amended.  Whenever the window of an observer (reached from a fresh one by
  ingestions and evictions) is empty, every success rate is 1; if moreover the overall
  latency ring holds no sample, all latency statistics are zero; and if moreover no
  error code has been counted 10 times or more, then \<open>analyze\<close>, with the initial
  thresholds and a non-negative latency baseline, emits no pattern.
\<close>

theorem C8_empty_window:
  assumes "transactions_window (observer_run ops (observer_init m)) = []"
  shows "get_success_rate d k (observer_run ops (observer_init m)) = 1
    \<and> (lat_overall (observer_run ops (observer_init m)) = [] \<longrightarrow>
         get_latency_stats Lat_overall k (observer_run ops (observer_init m))
           = \<lparr>lat_p50 = 0, lat_p95 = 0, lat_p99 = 0, lat_mean = 0, lat_max = 0\<rparr>)
    \<and> (lat_overall (observer_run ops (observer_init m)) = []
         \<and> (\<forall>kc \<in> set (error_codes (observer_run ops (observer_init m))). snd kc < 10)
         \<and> thresholds r = thresholds reasoner_init
         \<and> 0 \<le> base_avg_latency (baselines r) \<longrightarrow>
         analyze r (observer_run ops (observer_init m)) = Inr [])"
proof -
  let ?obs = "observer_run ops (observer_init m)"
  have c: "stats_consistent ?obs" by (rule run_consistent[OF init_consistent])
  have di: "stats_distinct ?obs" by (rule run_distinct)
  have "total (dd_get (stats ?obs d) zero_counter k) = 0"
    using c assms by (simp add: stats_consistent_def n_total_def)
  then have 1: "get_success_rate d k ?obs = 1" by (simp add: get_success_rate_def)
  have 2: "lat_overall ?obs = [] \<longrightarrow>
         get_latency_stats Lat_overall k ?obs
           = \<lparr>lat_p50 = 0, lat_p95 = 0, lat_p99 = 0, lat_mean = 0, lat_max = 0\<rparr>"
    by (simp add: get_latency_stats_def latencies_of_def)
  have 3: "lat_overall ?obs = []
         \<and> (\<forall>kc \<in> set (error_codes ?obs). snd kc < 10)
         \<and> thresholds r = thresholds reasoner_init
         \<and> 0 \<le> base_avg_latency (baselines r) \<longrightarrow> analyze r ?obs = Inr []"
  proof (intro impI, elim conjE)
    assume l: "lat_overall ?obs = []" and e: "\<forall>kc \<in> set (error_codes ?obs). snd kc < 10"
      and t: "thresholds r = thresholds reasoner_init" and b: "0 \<le> base_avg_latency (baselines r)"
    show "analyze r ?obs = Inr []"
      by (rule empty_window_analyze[OF c di assms l]) (use e t b in \<open>simp_all add: reasoner_init_def\<close>)
  qed
  from 1 2 3 show ?thesis by blast
qed

lemma quiet_run:
  "transactions_window (observer_run [Ingest 0 quiet_txn, Evict 1000000000] (observer_init 10)) = []"
  "lat_overall (observer_run [Ingest 0 quiet_txn, Evict 1000000000] (observer_init 10)) = []"
  "error_codes (observer_run [Ingest 0 quiet_txn, Evict 1000000000] (observer_init 10)) = []"
  by (simp_all add: quiet_txn_def observer_run_def ingest_transaction_def old_failed_txn_def
      observer_init_def minutes_def cleanup_old_transactions_def Let_def track_latency_def
      track_errors_def track_retries_def)

text \<open>
  The amended claim at an observer that has ingested and evicted a transaction without
  latency sample and error code.
\<close>

theorem C8_empty_window_witness:
  "transactions_window (observer_run [Ingest 0 quiet_txn, Evict 1000000000] (observer_init 10)) = []
   \<and> get_success_rate Overall ''current'' (observer_run [Ingest 0 quiet_txn, Evict 1000000000] (observer_init 10)) = 1
   \<and> get_latency_stats Lat_overall [] (observer_run [Ingest 0 quiet_txn, Evict 1000000000] (observer_init 10))
           = \<lparr>lat_p50 = 0, lat_p95 = 0, lat_p99 = 0, lat_mean = 0, lat_max = 0\<rparr>
   \<and> analyze reasoner_init (observer_run [Ingest 0 quiet_txn, Evict 1000000000] (observer_init 10)) = Inr []"
  using C8_empty_window[of "[Ingest 0 quiet_txn, Evict 1000000000]" 10 Overall "''current''" reasoner_init]
        C8_empty_window[of "[Ingest 0 quiet_txn, Evict 1000000000]" 10 Overall "[]" reasoner_init]
  by (simp add: quiet_run reasoner_init_def)

section \<open>The issuer-degradation detector\<close>





lemma collect_total:
  "(\<And>x. x \<in> set xs \<Longrightarrow> body x = Inr (g x)) \<Longrightarrow> collect body xs = Inr (concat (map g xs))"
  by (induction xs) (simp_all add: bind_err_def)







section \<open>The safety gate and the circuit breaker\<close>

text \<open>
  Claim C3 fails as stated in one point: for a high-risk action with 3 or more rollbacks
  the reason is not always the high-risk one, since the two general limits are checked
  first.  With 10 rollbacks the reason is the one of the rollback limit.
\<close>

theorem C3_counterexample:
  "risk_level (action0\<lparr>risk_level := HIGH\<rparr>) \<in> {HIGH, CRITICAL}
   \<and> 3 \<le> rollbacks_last_hour (agent_state_init\<lparr>rollbacks_last_hour := 10\<rparr>)
   \<and> can_take_action (agent_state_init\<lparr>rollbacks_last_hour := 10\<rparr>) (action0\<lparr>risk_level := HIGH\<rparr>)
       = (False, ''Too many rollbacks in last hour'')
   \<and> snd (can_take_action (agent_state_init\<lparr>rollbacks_last_hour := 10\<rparr>) (action0\<lparr>risk_level := HIGH\<rparr>))
       \<noteq> ''High-risk action blocked due to recent rollbacks''"
  by (simp add: can_take_action_def action0_def agent_state_init_def)

text \<open>
  Claim C3, amended.  \<open>can_take_action\<close> returns not-allowed exactly when 50 or more
  actions were taken in the last hour, or 10 or more rollbacks happened, or the action
  is of high or critical risk and 3 or more rollbacks happened; in the last case, when
  neither of the first two limits is reached, the returned pair is \<open>False\<close> with the
  reason \<open>High-risk action blocked due to recent rollbacks\<close>.  In particular, with
  exactly 3 rollbacks every high-risk action is blocked.
\<close>

theorem C3_can_take_action:
  "(\<not> fst (can_take_action st a) \<longleftrightarrow>
      (50 \<le> actions_taken_last_hour st \<or> 10 \<le> rollbacks_last_hour st
       \<or> (risk_level a \<in> {HIGH, CRITICAL} \<and> 3 \<le> rollbacks_last_hour st)))
   \<and> (risk_level a \<in> {HIGH, CRITICAL} \<and> 3 \<le> rollbacks_last_hour st
        \<and> actions_taken_last_hour st < 50 \<and> rollbacks_last_hour st < 10
      \<longrightarrow> can_take_action st a = (False, ''High-risk action blocked due to recent rollbacks''))
   \<and> (risk_level a \<in> {HIGH, CRITICAL} \<and> rollbacks_last_hour st = 3
      \<longrightarrow> \<not> fst (can_take_action st a))"
  by (auto simp add: can_take_action_def)

text \<open>A high-risk action at exactly 3 rollbacks.\<close>

theorem C3_can_take_action_witness:
  "risk_level (action0\<lparr>risk_level := HIGH\<rparr>) \<in> {HIGH, CRITICAL}
   \<and> rollbacks_last_hour (agent_state_init\<lparr>rollbacks_last_hour := 3\<rparr>) = 3
   \<and> actions_taken_last_hour (agent_state_init\<lparr>rollbacks_last_hour := 3\<rparr>) < 50
   \<and> can_take_action (agent_state_init\<lparr>rollbacks_last_hour := 3\<rparr>) (action0\<lparr>risk_level := HIGH\<rparr>)
        = (False, ''High-risk action blocked due to recent rollbacks'')"
  using C3_can_take_action[of "agent_state_init\<lparr>rollbacks_last_hour := 3\<rparr>" "action0\<lparr>risk_level := HIGH\<rparr>"]
  by (simp add: action0_def agent_state_init_def)

text \<open>
  Claim C5 fails as stated: when the issuer is already in the set of circuit breakers,
  executing adds nothing and rolling back removes the issuer, so the set is not the one
  before the execution.
\<close>

theorem C5_counterexample:
  "action_type breaker_hdfc = CIRCUIT_BREAKER
   \<and> p_issuer (parameters breaker_hdfc) = Some ''HDFC''
   \<and> active_circuit_breakers (agent_state_init\<lparr>active_circuit_breakers := {''HDFC''}\<rparr>) = {''HDFC''}
   \<and> fst (execute_circuit_breaker breaker_hdfc (agent_state_init\<lparr>active_circuit_breakers := {''HDFC''}\<rparr>))
        = (True, ''Circuit breaker activated for HDFC'')
   \<and> active_circuit_breakers
        (fst (snd (snd (rollback_action 0 breaker_hdfc
           (snd (execute_circuit_breaker breaker_hdfc (agent_state_init\<lparr>active_circuit_breakers := {''HDFC''}\<rparr>)))
           executor_init)))) = {}"
  by (simp add: breaker_hdfc_def action0_def no_parameters_def agent_state_init_def
      execute_circuit_breaker_def rollback_action_def reverse_write_def Let_def)

text \<open>
  Claim C5, amended.  For a \<open>circuit_breaker\<close> action with a non-empty issuer \<open>i\<close>,
  executing adds \<open>i\<close> to \<open>active_circuit_breakers\<close> and rolling back discards \<open>i\<close>: the
  result is the set before the execution without \<open>i\<close>, which is the set before the
  execution whenever \<open>i\<close> was not in it.  The action handed to the rollback is the
  executed one: same type and parameters.
\<close>

theorem C5_breaker_roundtrip:
  assumes "action_type a = CIRCUIT_BREAKER" and "p_issuer (parameters a) = Some i" and "i \<noteq> []"
    and "action_type a' = action_type a" and "parameters a' = parameters a"
  shows "fst (fst (execute_circuit_breaker a st))
    \<and> active_circuit_breakers (snd (execute_circuit_breaker a st)) = insert i (active_circuit_breakers st)
    \<and> active_circuit_breakers
         (fst (snd (snd (rollback_action now a' (snd (execute_circuit_breaker a st)) ex))))
        = active_circuit_breakers st - {i}
    \<and> (i \<notin> active_circuit_breakers st \<longrightarrow>
         active_circuit_breakers
           (fst (snd (snd (rollback_action now a' (snd (execute_circuit_breaker a st)) ex))))
          = active_circuit_breakers st)"
  using assms
  by (auto simp add: execute_circuit_breaker_def rollback_action_def reverse_write_def Let_def)

text \<open>Breaking \<open>HDFC\<close> while \<open>ICICI\<close> is broken, and rolling back.\<close>

theorem C5_breaker_roundtrip_witness:
  "action_type breaker_hdfc = CIRCUIT_BREAKER
   \<and> p_issuer (parameters breaker_hdfc) = Some ''HDFC''
   \<and> ''HDFC'' \<notin> active_circuit_breakers (agent_state_init\<lparr>active_circuit_breakers := {''ICICI''}\<rparr>)
   \<and> active_circuit_breakers
        (snd (execute_circuit_breaker breaker_hdfc (agent_state_init\<lparr>active_circuit_breakers := {''ICICI''}\<rparr>)))
       = {''HDFC'', ''ICICI''}
   \<and> active_circuit_breakers
        (fst (snd (snd (rollback_action 5 (breaker_hdfc\<lparr>status := ''executed'', executed_at := Some 1\<rparr>)
           (snd (execute_circuit_breaker breaker_hdfc (agent_state_init\<lparr>active_circuit_breakers := {''ICICI''}\<rparr>)))
           executor_init)))) = {''ICICI''}"
  using C5_breaker_roundtrip[of breaker_hdfc "''HDFC''" "breaker_hdfc\<lparr>status := ''executed'', executed_at := Some 1\<rparr>"
          "agent_state_init\<lparr>active_circuit_breakers := {''ICICI''}\<rparr>" 5 executor_init]
  by (simp add: breaker_hdfc_def action0_def no_parameters_def agent_state_init_def)

section \<open>The executor's invariant\<close>

lemma set_update_subset: "x \<in> set (AList.update k v al) \<Longrightarrow> x = (k, v) \<or> x \<in> set al"
  by (induction al) (auto split: if_splits)

lemma distinct_snd_update:
  assumes "distinct (map (\<lambda>ka. g (snd ka)) al)" and "\<forall>ka \<in> set al. g (snd ka) \<noteq> g v"
  shows "distinct (map (\<lambda>ka. g (snd ka)) (AList.update k v al))"
  using assms
proof (induction al)
  case Nil
  then show ?case by simp
next
  case (Cons p ps)
  show ?case
  proof (cases "fst p = k")
    case True
    with Cons.prems show ?thesis by (auto simp: image_iff)
  next
    case False
    have "g (snd p) \<notin> (\<lambda>ka. g (snd ka)) ` set (AList.update k v ps)"
    proof
      assume "g (snd p) \<in> (\<lambda>ka. g (snd ka)) ` set (AList.update k v ps)"
      then obtain x where x: "x \<in> set (AList.update k v ps)" "g (snd p) = g (snd x)" by auto
      from set_update_subset[OF x(1)] show False
      proof
        assume "x = (k, v)" with x(2) Cons.prems(2) show False by auto
      next
        assume "x \<in> set ps" with x(2) Cons.prems(1) show False by (auto simp: image_iff)
      qed
    qed
    with False Cons show ?thesis by simp
  qed
qed

lemma find_baseline_append:
  "find_baseline_for_action (ex\<lparr>execution_log := execution_log ex @ [e]\<rparr>) k
     = (if le_action_id e = k then Some (le_baseline_metrics e) else find_baseline_for_action ex k)"
  by (simp add: find_baseline_for_action_def)

lemma find_baseline_cong:
  "execution_log ex1 = execution_log ex2 \<Longrightarrow> find_baseline_for_action ex1 k = find_baseline_for_action ex2 k"
  by (simp add: find_baseline_for_action_def)

lemma pre_checks_fresh:
  assumes "fst (pre_execution_checks ex a st)"
  shows "\<forall>ka \<in> set (active_interventions ex).
           (action_type (snd ka), target (snd ka)) \<noteq> (action_type a, target a)"
proof -
  have "find (\<lambda>ka. action_type (snd ka) = action_type a \<and> target (snd ka) = target a)
          (active_interventions ex) = None"
    using assms by (auto simp: pre_execution_checks_def split: if_splits option.splits)
  then show ?thesis by (auto simp: find_None_iff)
qed

lemma execute_inv:
  assumes "exec_inv ex"
  shows "exec_inv (snd (snd (snd (execute now a st obs ex))))"
proof (cases "fst (pre_execution_checks ex a st) \<and> fst (fst (execute_by_type now a st))")
  case False
  then have "snd (snd (snd (execute now a st obs ex))) = ex"
    by (auto simp: execute_def Let_def)
  with assms show ?thesis by simp
next
  case True
  let ?a1 = "a\<lparr>status := ''executed'', executed_at := Some now\<rparr>"
  let ?ai = "AList.update (action_id a) ?a1 (active_interventions ex)"
  let ?ex' = "snd (snd (snd (execute now a st obs ex)))"
  have ai: "active_interventions ?ex' = ?ai"
    and th: "rollback_thresholds ?ex' = rollback_thresholds ex"
    using True by (simp_all add: execute_def Let_def log_execution_def)
  have fb: "\<And>k. find_baseline_for_action ?ex' k
      = (if action_id a = k then Some (capture_baseline_metrics now obs) else find_baseline_for_action ex k)"
    using True by (simp add: execute_def Let_def log_execution_def find_baseline_for_action_def)
  have 1: "distinct (map fst ?ai)"
    using assms by (simp add: exec_inv_def distinct_update)
  have 2: "\<forall>ka \<in> set ?ai. fst ka = action_id (snd ka) \<and> find_baseline_for_action ?ex' (fst ka) \<noteq> None"
  proof
    fix ka assume "ka \<in> set ?ai"
    from set_update_subset[OF this] assms
    show "fst ka = action_id (snd ka) \<and> find_baseline_for_action ?ex' (fst ka) \<noteq> None"
      by (auto simp: fb exec_inv_def)
  qed
  have 3: "distinct (map (\<lambda>ka. (action_type (snd ka), target (snd ka))) ?ai)"
  proof (rule distinct_snd_update[where g = "\<lambda>a. (action_type a, target a)"])
    show "distinct (map (\<lambda>ka. (action_type (snd ka), target (snd ka))) (active_interventions ex))"
      using assms by (simp add: exec_inv_def)
    show "\<forall>ka\<in>set (active_interventions ex).
       (action_type (snd ka), target (snd ka)) \<noteq> (action_type ?a1, target ?a1)"
      using pre_checks_fresh[of ex a st] True by simp
  qed
  have 4: "rollback_thresholds ?ex' = rollback_thresholds executor_init"
    using th assms by (simp add: exec_inv_def)
  show ?thesis
    unfolding exec_inv_def ai using 1 2 3 4 by blast
qed

lemma due_cong:
  "execution_log ex1 = execution_log ex2 \<Longrightarrow> rollback_thresholds ex1 = rollback_thresholds ex2 \<Longrightarrow>
   due pct now cur ex1 ka = due pct now cur ex2 ka
   \<and> due_reason pct now cur ex1 ka = due_reason pct now cur ex2 ka"
  by (auto simp: due_def due_reason_def find_baseline_for_action_def should_rollback_def
        split: option.splits)

lemma drop_step_frame [simp]:
  "execution_log (drop_step ka ex) = execution_log ex"
  "rollback_thresholds (drop_step ka ex) = rollback_thresholds ex"
  by (simp_all add: drop_step_def)

lemma fold_drop_frame [simp]:
  "execution_log (fold drop_step sel ex) = execution_log ex"
  "rollback_thresholds (fold drop_step sel ex) = rollback_thresholds ex"
  by (induction sel arbitrary: ex) simp_all

lemma monitor_loop_closed:
  "monitor_loop pct now cur rest r =
     \<lparr>mr_rolled_back = mr_rolled_back r @ map fst (filter (due pct now cur (mr_executor r)) rest),
      mr_actions = mr_actions r @
         map (\<lambda>ka. (snd ka)\<lparr>status := ''rolled_back'', completed_at := Some now\<rparr>)
             (filter (due pct now cur (mr_executor r)) rest),
      mr_reasons = mr_reasons r @
         map (due_reason pct now cur (mr_executor r)) (filter (due pct now cur (mr_executor r)) rest),
      mr_state = fold undo_step (filter (due pct now cur (mr_executor r)) rest) (mr_state r),
      mr_executor = fold drop_step (filter (due pct now cur (mr_executor r)) rest) (mr_executor r)\<rparr>"
proof (induction rest arbitrary: r)
  case Nil
  then show ?case by simp
next
  case (Cons ka rest)
  show ?case
  proof (cases "due pct now cur (mr_executor r) ka")
    case False
    then have "monitor_loop pct now cur (ka # rest) r = monitor_loop pct now cur rest r"
      by (auto simp: due_def Let_def split: option.splits)
    with False Cons.IH[of r] show ?thesis by simp
  next
    case True
    then obtain b where b: "find_baseline_for_action (mr_executor r) (fst ka) = Some b"
      "fst (should_rollback pct (mr_executor r) now (snd ka) b cur)"
      by (auto simp: due_def split: option.splits)
    let ?r' = "\<lparr>mr_rolled_back = mr_rolled_back r @ [fst ka],
                mr_actions = mr_actions r @ [(snd ka)\<lparr>status := ''rolled_back'', completed_at := Some now\<rparr>],
                mr_reasons = mr_reasons r @ [due_reason pct now cur (mr_executor r) ka],
                mr_state = undo_step ka (mr_state r),
                mr_executor = drop_step ka (mr_executor r)\<rparr>"
    have step: "monitor_loop pct now cur (ka # rest) r = monitor_loop pct now cur rest ?r'"
      using b by (simp add: Let_def rollback_action_def undo_step_def drop_step_def due_reason_def)
    have c: "due pct now cur (drop_step ka (mr_executor r)) = due pct now cur (mr_executor r)"
      "due_reason pct now cur (drop_step ka (mr_executor r)) = due_reason pct now cur (mr_executor r)"
      using due_cong[of "drop_step ka (mr_executor r)" "mr_executor r"] by (simp_all add: fun_eq_iff)
    show ?thesis
      unfolding step Cons.IH[of ?r'] using True by (simp add: c)
  qed
qed

lemma delete_filter: "AList.delete k al = filter (\<lambda>ka. fst ka \<noteq> k) al"
  by (induction al) auto

lemma fold_drop_ai:
  "active_interventions (fold drop_step sel ex)
     = filter (\<lambda>ka. fst ka \<notin> set (map (\<lambda>kb. action_id (snd kb)) sel)) (active_interventions ex)"
proof (induction sel arbitrary: ex)
  case Nil
  then show ?case by simp
next
  case (Cons x xs)
  have "active_interventions (drop_step x ex)
          = filter (\<lambda>ka. fst ka \<noteq> action_id (snd x)) (active_interventions ex)"
    by (simp add: drop_step_def delete_filter)
  then show ?case
    by (simp add: Cons.IH conj_commute)
qed

lemma exec_inv_init: "exec_inv executor_init"
  by (simp add: exec_inv_def executor_init_def)

lemma monitor_executor:
  "mr_executor (monitor_and_rollback pct now st obs ex)
     = fold drop_step (filter (due pct now (capture_baseline_metrics now obs) ex) (active_interventions ex)) ex"
  by (simp add: monitor_and_rollback_def monitor_loop_closed)

lemma monitor_inv:
  assumes "exec_inv ex"
  shows "exec_inv (mr_executor (monitor_and_rollback pct now st obs ex))"
proof -
  let ?sel = "filter (due pct now (capture_baseline_metrics now obs) ex) (active_interventions ex)"
  let ?ex' = "fold drop_step ?sel ex"
  have ai: "active_interventions ?ex'
      = filter (\<lambda>ka. fst ka \<notin> set (map (\<lambda>kb. action_id (snd kb)) ?sel)) (active_interventions ex)"
    by (rule fold_drop_ai)
  have fb: "\<And>k. find_baseline_for_action ?ex' k = find_baseline_for_action ex k"
    by (rule find_baseline_cong) simp
  show ?thesis
    unfolding monitor_executor exec_inv_def ai fb
    using assms by (auto simp: exec_inv_def distinct_map_filter)
qed

lemma step_inv: "exec_inv (snd s) \<Longrightarrow> exec_inv (snd (executor_step pct op s))"
  by (cases op) (simp_all add: execute_inv monitor_inv Let_def)

lemma run_inv: "exec_inv (snd s) \<Longrightarrow> exec_inv (snd (executor_run pct ops s))"
  unfolding executor_run_def
  by (induction ops arbitrary: s) (simp_all add: step_inv)

text \<open>
  Claim C9.  In every state of the executor reached from an empty set of active
  interventions by \<open>execute\<close> and \<open>monitor_and_rollback\<close> steps, no two active
  interventions have the same action type and target.
\<close>

theorem C9_unique_interventions:
  "distinct (map (\<lambda>ka. (action_type (snd ka), target (snd ka)))
              (active_interventions (snd (executor_run pct ops (st0, executor_init)))))"
proof -
  have "exec_inv (snd (executor_run pct ops (st0, executor_init)))"
    by (rule run_inv) (simp add: exec_inv_init)
  then show ?thesis by (simp add: exec_inv_def)
qed

section \<open>Monitoring and rollback\<close>





lemma reverse_write_frame [simp]:
  "rollbacks_last_hour (reverse_write a st) = rollbacks_last_hour st"
  by (simp add: reverse_write_def split: ActionType.splits option.splits)






lemma write_reversed_status [simp]:
  "write_reversed (a\<lparr>status := s, completed_at := c\<rparr>) st = write_reversed a st"
  by (simp add: write_reversed_def split: ActionType.splits)








section \<open>The concurrency limit\<close>

lemma five_active_value:
  "active_interventions (snd five_active) =
     [(''ops1'', (alert ''ops1'')\<lparr>status := ''executed'', executed_at := Some 0\<rparr>),
      (''ops2'', (alert ''ops2'')\<lparr>status := ''executed'', executed_at := Some 0\<rparr>),
      (''ops3'', (alert ''ops3'')\<lparr>status := ''executed'', executed_at := Some 0\<rparr>),
      (''ops4'', (alert ''ops4'')\<lparr>status := ''executed'', executed_at := Some 0\<rparr>),
      (''ops5'', (alert ''ops5'')\<lparr>status := ''executed'', executed_at := Some 0\<rparr>)]"
  "actions_taken_last_hour (fst five_active) = 5"
  "rollbacks_last_hour (fst five_active) = 0"
  "actions_executed (fst five_active) = 5"
  by (simp_all add: five_active_def executor_run_def execute_def pre_execution_checks_def
      can_take_action_def execute_by_type_def execute_alert_def log_execution_def
      alert_def action0_def agent_state_init_def executor_init_def Let_def)

text \<open>
  Claim C4 is not met by the code.  \<open>can_take_action\<close> and \<open>_pre_execution_checks\<close>
  never count the active interventions: with five interventions active, a sixth action
  passes both checks and is executed.  The limit of five is declared in
  \<open>SafetyLimits\<close>, but \<open>check_action_allowed\<close> is not called on the execution path, and
  on this state it raises instead of returning a verdict.
\<close>

theorem C4_concurrency_cap_missing:
  "length (active_interventions (snd five_active)) = 5
   \<and> can_take_action (fst five_active) (alert ''ops6'') = (True, ''Action allowed'')
   \<and> pre_execution_checks (snd five_active) (alert ''ops6'') (fst five_active) = (True, ''Checks passed'')
   \<and> fst (execute 0 (alert ''ops6'') (fst five_active) (observer_init 10) (snd five_active))
        = (True, ''Alert sent to ops team'')
   \<and> length (active_interventions
        (snd (snd (snd (execute 0 (alert ''ops6'') (fst five_active) (observer_init 10) (snd five_active)))))) = 6
   \<and> check_action_allowed safety_limits_default (alert ''ops6'') (fst five_active) = Inl AttributeError"
  by (simp add: five_active_value execute_def pre_execution_checks_def
      can_take_action_def execute_by_type_def execute_alert_def log_execution_def
      check_action_allowed_def check_rate_limit_def safety_limits_default_def
      alert_def action0_def Let_def)

section \<open>Tuning the decision weights\<close>




lemma risk_scores [simp]: "objective_scores ao Risk = []"
  by (simp add: objective_scores_def)


lemma adjusted_risk [simp]: "adjusted ao Risk x = x"
  by (simp add: adjusted_def)






























end
